theory Spec2Isabelle
  imports Complex_Main "HOL-Library.Word"
begin

section \<open>The relational store\<close>

text \<open>
  The backend keeps all its state in one SQLite database (db.js). Each table is a list
  of rows in insertion order; a row is a record of the columns the worker, request and
  material workflows read or write (names, descriptions, e-mail addresses, images and
  the like are left out, no handler below branches on them). Column types follow the
  schema: INTEGER keys are \<open>nat\<close>, a nullable column is an \<open>option\<close>, TEXT is
  \<open>string\<close>, the BOOLEAN \<open>is_available\<close> is \<open>bool\<close>, DECIMAL prices are \<open>real\<close>.
  The stock of a material is an integer or NULL (\<open>int option\<close>); the quantity of an
  order row is whatever the order handler was given, as described next. Timestamps (CURRENT_TIMESTAMP) are a \<open>nat\<close> clock value handed to each call. Calls
  are handled one at a time: a handler runs from its first line to its reply on the
  store the previous call left.
\<close>

subsection \<open>The quantity of an order\<close>

text \<open>
  The order handler takes \<open>req.body.quantity\<close> as the client sent it and never looks
  at its type, so the quantity is a JSON value and not a number. Four kinds of value
  are modelled:
  \<^item> \<open>JInt n\<close>, a number that is a 32-bit integer;
  \<^item> \<open>JText t\<close>, a string made of one to nine decimal digits, then a letter other
    than b, e, o and x, then anything, such as \<open>50abc\<close>. The two languages disagree on
    such a string: to JavaScript it is not a number (NaN), SQLite reads its leading
    digits and drops the rest;
  \<^item> \<open>JNull\<close>, the value \<open>null\<close>;
  \<^item> \<open>JMissing\<close>, a body without a quantity (\<open>undefined\<close>).
  Numbers with a fraction or beyond 32 bits are computed in floating point, and other
  strings, booleans, arrays and objects go through further conversion rules of the
  two languages; the types below leave them out.
\<close>

definition digit :: "char \<Rightarrow> bool" where
  "digit c \<longleftrightarrow> c \<in> set ''0123456789''"

definition digit_value :: "char \<Rightarrow> int" where
  "digit_value c = int (of_char c) - 48"

definition junk_letter :: "char \<Rightarrow> bool" where
  "junk_letter c \<longleftrightarrow> c \<in> set ''acdfghijklmnpqrstuvwyzACDFGHIJKLMNPQRSTUVWYZ''"

definition digits_then_letter :: "string \<Rightarrow> bool" where
  "digits_then_letter s \<longleftrightarrow>
     takeWhile digit s \<noteq> [] \<and> length (takeWhile digit s) \<le> 9 \<and>
     (case dropWhile digit s of [] \<Rightarrow> False | c # rest \<Rightarrow> junk_letter c)"

typedef prefixed_text = "{s. digits_then_letter s}"
  by (rule exI [of _ "''1a''"]) (simp add: digits_then_letter_def digit_def junk_letter_def)

text \<open>The integer SQLite makes of such a text in arithmetic: the value of its digits.\<close>

definition numeric_prefix :: "prefixed_text \<Rightarrow> int" where
  "numeric_prefix t =
     foldl (\<lambda>n c. 10 * n + digit_value c) 0 (takeWhile digit (Rep_prefixed_text t))"

datatype json = JInt "32 word" | JText prefixed_text | JNull | JMissing


text \<open>
  What the driver binds to a \<open>?\<close> of a statement, and what the INTEGER column
  \<open>project_materials.quantity\<close> then holds: a 32-bit integer is stored as an
  integer, a text that is not a number stays text, \<open>null\<close> and an unbound parameter
  are NULL.
\<close>

datatype sql_value = SInt int | SText string | SNull

fun bind_value :: "json \<Rightarrow> sql_value" where
  "bind_value (JInt n) = SInt (sint n)"
| "bind_value (JText t) = SText (Rep_prefixed_text t)"
| "bind_value JNull = SNull"
| "bind_value JMissing = SNull"

text \<open>A stored quantity that is an integer above zero.\<close>

fun positive :: "sql_value \<Rightarrow> bool" where
  "positive (SInt i) = (0 < i)"
| "positive (SText s) = False"
| "positive SNull = False"

text \<open>
  \<open>material.stock_quantity < quantity\<close> in JavaScript. The stock comes from an INTEGER
  column and is an integer or NULL, which the driver hands over as \<open>null\<close>; in a
  comparison \<open>null\<close> counts as 0, and any comparison with NaN (a text of the kind
  above, or \<open>undefined\<close>) is false. JavaScript holds the stock as a floating point
  number, exact up to \<open>2\<^sup>5\<^sup>3\<close> and rounded beyond; against a 32-bit integer the
  comparison of the rounded stock has the outcome of the comparison of the integers.
\<close>

fun js_number :: "int option \<Rightarrow> int" where
  "js_number None = 0"
| "js_number (Some s) = s"

fun js_less_than :: "int option \<Rightarrow> json \<Rightarrow> bool" where
  "js_less_than stock (JInt n) = (js_number stock < sint n)"
| "js_less_than stock (JText t) = False"
| "js_less_than stock JNull = (js_number stock < 0)"
| "js_less_than stock JMissing = False"

text \<open>
  \<open>stock_quantity - ?\<close> in SQLite: NULL on either side gives NULL, a text counts with
  its leading digits. SQLite's integers have 64 bits and a difference beyond them is
  computed in floating point; the integers here are unbounded, so the function gives
  SQLite's result as long as stock and difference fit 64 bits. The theorems on the
  amount of a stock state that range as a hypothesis.
\<close>

fun sql_minus :: "int option \<Rightarrow> json \<Rightarrow> int option" where
  "sql_minus None q = None"
| "sql_minus (Some s) (JInt n) = Some (s - sint n)"
| "sql_minus (Some s) (JText t) = Some (s - numeric_prefix t)"
| "sql_minus (Some s) JNull = None"
| "sql_minus (Some s) JMissing = None"

text \<open>
  \<open>material.price_per_unit * quantity\<close> is a JavaScript product of floating point
  numbers (NaN for a quantity that is not a number). Nothing reads it back, so it is
  kept as the product it stands for and not evaluated.
\<close>

datatype cost = Times real json

subsection \<open>Tables\<close>

record user_row =
  u_id :: nat
  u_user_type :: string
  u_sub_user_type :: "string option"
  u_is_available :: bool

record project_row =
  p_id :: nat
  p_status :: string
  p_created_by :: nat
  p_civil_engineer_id :: "nat option"

record worker_request_row =
  wr_id :: nat
  wr_project_id :: nat
  wr_worker_id :: nat
  wr_requested_by :: nat
  wr_status :: string
  wr_message :: string
  wr_created_at :: nat
  wr_responded_at :: "nat option"

record project_worker_row =
  pw_id :: nat
  pw_project_id :: nat
  pw_worker_id :: nat
  pw_assigned_by :: nat
  pw_role :: "string option"
  pw_assigned_at :: nat

record material_row =
  m_id :: nat
  m_price_per_unit :: real
  m_stock_quantity :: "int option"

record project_material_row =
  pm_id :: nat
  pm_project_id :: nat
  pm_material_id :: nat
  pm_quantity :: sql_value
  pm_total_cost :: cost
  pm_ordered_by :: nat
  pm_ordered_at :: nat

record milestone_row =
  ms_id :: nat
  ms_project_id :: nat
  ms_title :: string
  ms_status :: string
  ms_created_by :: nat

record db =
  users :: "user_row list"
  projects :: "project_row list"
  worker_requests :: "worker_request_row list"
  project_workers :: "project_worker_row list"
  materials :: "material_row list"
  project_materials :: "project_material_row list"
  project_milestones :: "milestone_row list"

text \<open>
  The authenticated caller, \<open>req.user\<close>, with the three fields the handlers read: its
  id, its \<open>user_type\<close> and its \<open>sub_user_type\<close>. The middleware that fills it in
  (middleware/auth.js) is not among the sources at hand, so the caller is a parameter
  of every handler.
\<close>

record actor =
  a_id :: nat
  a_user_type :: string
  a_sub_user_type :: "string option"

text \<open>
  What a handler sends back: \<open>res.status(c).json({error: msg})\<close> written by the handler
  itself is \<open>Error c msg\<close>; the outer \<open>catch\<close>, which answers 500 with the message of
  the error the store threw, is \<open>Internal\<close>; a success is \<open>Json\<close> with its status code.
  The handlers answer 400 both to a malformed demand and to a demand the state forbids;
  the message tells them apart.
\<close>

datatype store_error = CheckConstraint | StoreFault

datatype body =
    Message string
  | MessageId string nat
  | MessageCost string cost
  | MaterialRows "project_material_row list"
  | MilestoneRows "milestone_row list"
  | WorkerRows "project_worker_row list"

datatype reply = Json nat body | Error nat string | Internal store_error

subsection \<open>Statements\<close>

text \<open>
  \<open>INTEGER PRIMARY KEY AUTOINCREMENT\<close>: a new row gets an id above every id of its
  table. No handler deletes from the three tables the workflows insert into, so the
  largest id ever used is the largest id present.
\<close>

definition next_id :: "nat list \<Rightarrow> nat" where
  "next_id ids = Suc (foldr max ids 0)"

type_synonym stmt = "db \<Rightarrow> store_error + db"

definition request_statuses :: "string list" where
  "request_statuses = [''pending'', ''accepted'', ''rejected'']"

text \<open>
  \<open>UPDATE worker_requests SET status = ?, responded_at = CURRENT_TIMESTAMP WHERE id = ?\<close>.
  The column carries \<open>CHECK(status IN ('pending', 'accepted', 'rejected'))\<close>: writing any
  other text into a row makes the statement throw.
\<close>

definition update_request_status :: "string \<Rightarrow> nat \<Rightarrow> nat \<Rightarrow> stmt" where
  "update_request_status status now rid d =
     (if (\<exists>r \<in> set (worker_requests d). wr_id r = rid) \<and> status \<notin> set request_statuses
      then Inl CheckConstraint
      else Inr (d\<lparr>worker_requests :=
                  map (\<lambda>r. if wr_id r = rid
                           then r\<lparr>wr_status := status, wr_responded_at := Some now\<rparr> else r)
                      (worker_requests d)\<rparr>))"

text \<open>\<open>UPDATE projects SET civil_engineer_id = ?, status = 'in_progress' WHERE id = ?\<close>\<close>

definition update_project_engineer :: "nat \<Rightarrow> nat \<Rightarrow> stmt" where
  "update_project_engineer uid pid d =
     Inr (d\<lparr>projects :=
            map (\<lambda>p. if p_id p = pid
                     then p\<lparr>p_civil_engineer_id := Some uid, p_status := ''in_progress''\<rparr> else p)
                (projects d)\<rparr>)"

text \<open>\<open>INSERT INTO project_workers (project_id, worker_id, assigned_by, role) VALUES (?, ?, ?, ?)\<close>\<close>

definition insert_project_worker :: "nat \<Rightarrow> nat \<Rightarrow> nat \<Rightarrow> string option \<Rightarrow> nat \<Rightarrow> stmt" where
  "insert_project_worker pid wid by_id role now d =
     Inr (d\<lparr>project_workers := project_workers d @
            [\<lparr>pw_id = next_id (map pw_id (project_workers d)), pw_project_id = pid,
              pw_worker_id = wid, pw_assigned_by = by_id, pw_role = role,
              pw_assigned_at = now\<rparr>]\<rparr>)"

text \<open>\<open>UPDATE users SET is_available = 0 WHERE id = ?\<close>\<close>

definition mark_unavailable :: "nat \<Rightarrow> stmt" where
  "mark_unavailable uid d =
     Inr (d\<lparr>users := map (\<lambda>u. if u_id u = uid then u\<lparr>u_is_available := False\<rparr> else u)
                          (users d)\<rparr>)"

text \<open>
  \<open>INSERT INTO project_materials (project_id, material_id, quantity, total_cost, ordered_by)\<close>
\<close>

definition insert_project_material :: "nat \<Rightarrow> nat \<Rightarrow> json \<Rightarrow> cost \<Rightarrow> nat \<Rightarrow> nat \<Rightarrow> stmt" where
  "insert_project_material pid mid quantity total_cost by_id now d =
     Inr (d\<lparr>project_materials := project_materials d @
            [\<lparr>pm_id = next_id (map pm_id (project_materials d)), pm_project_id = pid,
              pm_material_id = mid, pm_quantity = bind_value quantity,
              pm_total_cost = total_cost,
              pm_ordered_by = by_id, pm_ordered_at = now\<rparr>]\<rparr>)"

text \<open>\<open>UPDATE materials SET stock_quantity = stock_quantity - ? WHERE id = ?\<close>\<close>

definition decrement_stock :: "json \<Rightarrow> nat \<Rightarrow> stmt" where
  "decrement_stock quantity mid d =
     Inr (d\<lparr>materials :=
            map (\<lambda>m. if m_id m = mid
                     then m\<lparr>m_stock_quantity := sql_minus (m_stock_quantity m) quantity\<rparr>
                     else m)
                (materials d)\<rparr>)"

text \<open>
  \<open>INSERT INTO worker_requests (project_id, worker_id, requested_by, message)\<close>; the
  status column takes its default, \<open>'pending'\<close>, and \<open>responded_at\<close> its default, NULL.
\<close>

definition insert_worker_request :: "nat \<Rightarrow> nat \<Rightarrow> nat \<Rightarrow> string \<Rightarrow> nat \<Rightarrow> db \<Rightarrow> db" where
  "insert_worker_request pid wid by_id message now d =
     d\<lparr>worker_requests := worker_requests d @
        [\<lparr>wr_id = next_id (map wr_id (worker_requests d)), wr_project_id = pid,
          wr_worker_id = wid, wr_requested_by = by_id, wr_status = ''pending'',
          wr_message = message, wr_created_at = now, wr_responded_at = None\<rparr>]\<rparr>"

subsection \<open>Transactions\<close>

text \<open>
  The three writing workflows share one shape:
  \<^verbatim>\<open>
    await db.run("BEGIN TRANSACTION");
    try { ...statements...; await db.run("COMMIT"); res.json(ok) }
    catch (error) { await db.run("ROLLBACK"); throw error; }
  \<close>
  inside the handler's outer \<open>try\<close>, whose \<open>catch\<close> answers 500 with the message of
  whatever was thrown. A call to the store throws when a constraint of the schema
  rejects the statement, or when the store itself fails. The latter is not decided by
  the program, so it is a parameter of every handler: \<open>fault = Some k\<close> makes the
  \<open>k\<close>-th call to the store that the handler reaches throw, counting from 0 (reads,
  BEGIN and COMMIT included), and \<open>fault = None\<close> is a store that does not fail.
  \<open>store_call\<close> is a call outside a transaction, \<open>transaction\<close> a block whose BEGIN
  is the handler's \<open>k\<close>-th call. After a throw inside the block the ROLLBACK (taken
  to succeed) puts the store back at the state it had at BEGIN, which is the state
  the handler was called in, since no handler writes before BEGIN.
\<close>

definition store_call :: "nat option \<Rightarrow> nat \<Rightarrow> db \<Rightarrow> db \<times> reply \<Rightarrow> db \<times> reply" where
  "store_call fault k d rest = (if fault = Some k then (d, Internal StoreFault) else rest)"

fun run_stmts :: "nat option \<Rightarrow> nat \<Rightarrow> stmt list \<Rightarrow> db \<Rightarrow> store_error + db" where
  "run_stmts fault k [] d = Inr d"
| "run_stmts fault k (s # ss) d =
     (if fault = Some k then Inl StoreFault
      else case s d of
             Inl e \<Rightarrow> Inl e
           | Inr d' \<Rightarrow> run_stmts fault (Suc k) ss d')"

definition transaction :: "nat option \<Rightarrow> nat \<Rightarrow> stmt list \<Rightarrow> reply \<Rightarrow> db \<Rightarrow> db \<times> reply" where
  "transaction fault k stmts ok d =
     (case run_stmts fault k ([Inr] @ stmts @ [Inr]) d of
        Inl e \<Rightarrow> (d, Internal e)
      | Inr d' \<Rightarrow> (d', ok))"

section \<open>The handlers\<close>

subsection \<open>Worker requests (routes/projects.js, routes/workers.js)\<close>

text \<open>\<open>POST /api/projects/:id/request-worker\<close>\<close>

definition request_worker ::
    "nat option \<Rightarrow> nat \<Rightarrow> db \<Rightarrow> actor \<Rightarrow> nat \<Rightarrow> nat \<Rightarrow> string \<Rightarrow> db \<times> reply" where
  "request_worker fault now d a pid worker_id message =
     store_call fault 0 d
       (case find (\<lambda>p. p_id p = pid) (projects d) of
          None \<Rightarrow> (d, Error 404 ''Project not found'')
        | Some project \<Rightarrow>
            if p_created_by project \<noteq> a_id a then (d, Error 403 ''Not authorized'')
            else
              store_call fault 1 d
                (case find (\<lambda>u. u_id u = worker_id \<and> u_user_type u = ''worker'' \<and>
                                u_sub_user_type u = Some ''civil_engineer'' \<and> u_is_available u)
                           (users d) of
                   None \<Rightarrow> (d, Error 400 ''Worker not available'')
                 | Some worker \<Rightarrow>
                     store_call fault 2 d
                       (case find (\<lambda>r. wr_project_id r = pid \<and> wr_worker_id r = worker_id \<and>
                                       wr_status r = ''pending'') (worker_requests d) of
                          Some existingRequest \<Rightarrow>
                            (d, Error 400 ''Request already sent to this worker'')
                        | None \<Rightarrow>
                            store_call fault 3 d
                              (insert_worker_request pid worker_id (a_id a) message now d,
                               Json 201 (MessageId ''Worker request sent successfully''
                                           (next_id (map wr_id (worker_requests d))))))))"

text \<open>\<open>PUT /api/workers/requests/:id/respond\<close>\<close>

definition respond_to_request :: "nat option \<Rightarrow> nat \<Rightarrow> db \<Rightarrow> actor \<Rightarrow> nat \<Rightarrow> string \<Rightarrow> db \<times> reply" where
  "respond_to_request fault now d a rid status =
     (if a_user_type a \<noteq> ''worker'' then (d, Error 403 ''Only workers can respond to requests'')
      else
        store_call fault 0 d
        (case find (\<lambda>r. wr_id r = rid \<and> wr_worker_id r = a_id a) (worker_requests d) of
           None \<Rightarrow> (d, Error 404 ''Request not found'')
         | Some request \<Rightarrow>
             if wr_status request \<noteq> ''pending''
             then (d, Error 400 ''Request already responded to'')
             else
               transaction fault 1
                 (update_request_status status now rid #
                  (if status = ''accepted''
                   then [update_project_engineer (a_id a) (wr_project_id request),
                         insert_project_worker (wr_project_id request) (a_id a) (a_id a)
                           (Some ''civil_engineer'') now,
                         mark_unavailable (a_id a)]
                   else []))
                 (Json 200 (Message (''Request '' @ status @ '' successfully'')))
                 d))"

subsection \<open>Direct assignment (routes/workers.js)\<close>

text \<open>
  \<open>POST /api/workers/assign\<close>. The role of the new row is \<open>role || worker.sub_user_type\<close>:
  the caller's role unless it is missing or the empty string.
\<close>

definition assign_worker ::
    "nat option \<Rightarrow> nat \<Rightarrow> db \<Rightarrow> actor \<Rightarrow> nat \<Rightarrow> nat \<Rightarrow> string option \<Rightarrow> db \<times> reply" where
  "assign_worker fault now d a pid worker_id role =
     (if a_user_type a \<noteq> ''worker'' \<or> a_sub_user_type a \<noteq> Some ''civil_engineer''
      then (d, Error 403 ''Only civil engineers can assign workers'')
      else
        store_call fault 0 d
        (case find (\<lambda>p. p_id p = pid \<and> p_civil_engineer_id p = Some (a_id a)) (projects d) of
           None \<Rightarrow> (d, Error 403 ''Not authorized for this project'')
         | Some project \<Rightarrow>
             store_call fault 1 d
             (case find (\<lambda>u. u_id u = worker_id \<and> u_user_type u = ''worker'' \<and> u_is_available u)
                        (users d) of
                None \<Rightarrow> (d, Error 400 ''Worker not available'')
              | Some worker \<Rightarrow>
                  transaction fault 2
                    [insert_project_worker pid worker_id (a_id a)
                       (if role = None \<or> role = Some [] then u_sub_user_type worker else role) now,
                     mark_unavailable worker_id]
                    (Json 200 (Message ''Worker assigned successfully''))
                    d)))"

subsection \<open>Material orders (routes/materials.js)\<close>

text \<open>\<open>POST /api/materials/order\<close>\<close>

definition order_material ::
    "nat option \<Rightarrow> nat \<Rightarrow> db \<Rightarrow> actor \<Rightarrow> nat \<Rightarrow> nat \<Rightarrow> json \<Rightarrow> db \<times> reply" where
  "order_material fault now d a pid material_id quantity =
     store_call fault 0 d
     (case find (\<lambda>p. p_id p = pid \<and> p_civil_engineer_id p = Some (a_id a)) (projects d) of
        None \<Rightarrow> (d, Error 403 ''Not authorized for this project'')
      | Some project \<Rightarrow>
          store_call fault 1 d
          (case find (\<lambda>m. m_id m = material_id) (materials d) of
             None \<Rightarrow> (d, Error 404 ''Material not found'')
           | Some material \<Rightarrow>
               if js_less_than (m_stock_quantity material) quantity
               then (d, Error 400 ''Insufficient stock'')
               else
                 (let total_cost = Times (m_price_per_unit material) quantity
                  in transaction fault 2
                       [insert_project_material pid material_id quantity total_cost (a_id a) now,
                        decrement_stock quantity material_id]
                       (Json 200 (MessageCost ''Material ordered successfully'' total_cost))
                       d)))"

subsection \<open>Reading a project's sub-resources\<close>

text \<open>
  \<open>GET /api/materials/project/:projectId\<close>, \<open>GET /api/milestones/project/:projectId\<close>
  and \<open>GET /api/workers/project/:projectId\<close> open with the same lines, written out in
  each of the three handlers: look the project up, answer 404 when it is absent, 403
  to a \<open>user\<close> who did not create it, and 403 to a \<open>worker\<close> who is neither its civil
  engineer nor in \<open>project_workers\<close> for it. \<open>project_access\<close> is that common
  opening; it yields the reply that ends the handler (\<open>Inl\<close>), or, when the handler
  goes on to read the rows, the number of calls to the store made so far (\<open>Inr\<close>):
  the assignment rows are read only for a worker who is not the civil engineer. The
  rows are listed in table order (the ORDER BY clause and the joined display columns
  are left out).
\<close>

definition project_access :: "nat option \<Rightarrow> db \<Rightarrow> actor \<Rightarrow> nat \<Rightarrow> reply + nat" where
  "project_access fault d a pid =
     (if fault = Some 0 then Inl (Internal StoreFault)
      else
        (case find (\<lambda>p. p_id p = pid) (projects d) of
           None \<Rightarrow> Inl (Error 404 ''Project not found'')
         | Some project \<Rightarrow>
             if a_user_type a = ''user'' \<and> p_created_by project \<noteq> a_id a
             then Inl (Error 403 ''Not authorized'')
             else if a_user_type a = ''worker'' \<and> p_civil_engineer_id project \<noteq> Some (a_id a)
             then (if fault = Some 1 then Inl (Internal StoreFault)
                   else if find (\<lambda>w. pw_project_id w = pid \<and> pw_worker_id w = a_id a)
                                (project_workers d) = None
                   then Inl (Error 403 ''Not authorized'')
                   else Inr 2)
             else Inr 1))"

definition get_project_materials :: "nat option \<Rightarrow> db \<Rightarrow> actor \<Rightarrow> nat \<Rightarrow> reply" where
  "get_project_materials fault d a pid =
     (case project_access fault d a pid of
        Inl r \<Rightarrow> r
      | Inr k \<Rightarrow>
          if fault = Some k then Internal StoreFault else
          Json 200 (MaterialRows
            (filter (\<lambda>pm. pm_project_id pm = pid \<and>
                          (\<exists>m \<in> set (materials d). m_id m = pm_material_id pm) \<and>
                          (\<exists>u \<in> set (users d). u_id u = pm_ordered_by pm))
                    (project_materials d))))"

definition get_project_milestones :: "nat option \<Rightarrow> db \<Rightarrow> actor \<Rightarrow> nat \<Rightarrow> reply" where
  "get_project_milestones fault d a pid =
     (case project_access fault d a pid of
        Inl r \<Rightarrow> r
      | Inr k \<Rightarrow>
          if fault = Some k then Internal StoreFault else
          Json 200 (MilestoneRows
            (filter (\<lambda>ms. ms_project_id ms = pid \<and>
                          (\<exists>u \<in> set (users d). u_id u = ms_created_by ms))
                    (project_milestones d))))"

definition get_project_workers :: "nat option \<Rightarrow> db \<Rightarrow> actor \<Rightarrow> nat \<Rightarrow> reply" where
  "get_project_workers fault d a pid =
     (case project_access fault d a pid of
        Inl r \<Rightarrow> r
      | Inr k \<Rightarrow>
          if fault = Some k then Internal StoreFault else
          Json 200 (WorkerRows
            (filter (\<lambda>w. pw_project_id w = pid \<and>
                         (\<exists>u \<in> set (users d). u_id u = pw_worker_id w))
                    (project_workers d))))"

section \<open>Sequences of calls\<close>

text \<open>
  One call of a writing workflow, with the clock value and the store fault it meets,
  and a run of such calls one after the other, each on the store the previous one left.
\<close>

datatype request =
    RequestWorker actor nat nat string
  | Respond actor nat string
  | Assign actor nat nat "string option"
  | Order actor nat nat json

type_synonym call = "nat option \<times> nat \<times> request"

fun handle :: "db \<Rightarrow> call \<Rightarrow> db \<times> reply" where
  "handle d (fault, now, RequestWorker a pid wid message) =
     request_worker fault now d a pid wid message"
| "handle d (fault, now, Respond a rid status) = respond_to_request fault now d a rid status"
| "handle d (fault, now, Assign a pid wid role) = assign_worker fault now d a pid wid role"
| "handle d (fault, now, Order a pid mid quantity) = order_material fault now d a pid mid quantity"

fun run :: "db \<Rightarrow> call list \<Rightarrow> db" where
  "run d [] = d"
| "run d (c # cs) = run (fst (handle d c)) cs"


section \<open>A building site\<close>

text \<open>
  A store the handlers can reach from the seeded database: an admin, a client who owns
  two projects, two civil engineers, a painter and a plumber. Project 2 is already
  under engineer 3 (request 1, accepted), who brought in the plumber; for project 1
  the client has asked both engineers and neither has answered yet. The materials are
  the five rows \<open>initDB\<close> inserts.
\<close>

definition admin1 :: actor where
  "admin1 = \<lparr>a_id = 1, a_user_type = ''admin'', a_sub_user_type = None\<rparr>"

definition client2 :: actor where
  "client2 = \<lparr>a_id = 2, a_user_type = ''user'', a_sub_user_type = None\<rparr>"

definition engineer3 :: actor where
  "engineer3 = \<lparr>a_id = 3, a_user_type = ''worker'', a_sub_user_type = Some ''civil_engineer''\<rparr>"

definition engineer4 :: actor where
  "engineer4 = \<lparr>a_id = 4, a_user_type = ''worker'', a_sub_user_type = Some ''civil_engineer''\<rparr>"

definition painter5 :: actor where
  "painter5 = \<lparr>a_id = 5, a_user_type = ''worker'', a_sub_user_type = Some ''painter''\<rparr>"

definition seed_materials :: "material_row list" where
  "seed_materials =
     [\<lparr>m_id = 1, m_price_per_unit = 450, m_stock_quantity = Some 100\<rparr>,
      \<lparr>m_id = 2, m_price_per_unit = 65, m_stock_quantity = Some 500\<rparr>,
      \<lparr>m_id = 3, m_price_per_unit = 8, m_stock_quantity = Some 1000\<rparr>,
      \<lparr>m_id = 4, m_price_per_unit = 1200, m_stock_quantity = Some 50\<rparr>,
      \<lparr>m_id = 5, m_price_per_unit = 1500, m_stock_quantity = Some 30\<rparr>]"

definition site :: db where
  "site =
     \<lparr>users =
        [\<lparr>u_id = 1, u_user_type = ''admin'', u_sub_user_type = None, u_is_available = True\<rparr>,
         \<lparr>u_id = 2, u_user_type = ''user'', u_sub_user_type = None, u_is_available = True\<rparr>,
         \<lparr>u_id = 3, u_user_type = ''worker'', u_sub_user_type = Some ''civil_engineer'',
           u_is_available = False\<rparr>,
         \<lparr>u_id = 4, u_user_type = ''worker'', u_sub_user_type = Some ''civil_engineer'',
           u_is_available = True\<rparr>,
         \<lparr>u_id = 5, u_user_type = ''worker'', u_sub_user_type = Some ''painter'',
           u_is_available = True\<rparr>,
         \<lparr>u_id = 6, u_user_type = ''worker'', u_sub_user_type = Some ''plumber'',
           u_is_available = False\<rparr>],
      projects =
        [\<lparr>p_id = 1, p_status = ''planning'', p_created_by = 2, p_civil_engineer_id = None\<rparr>,
         \<lparr>p_id = 2, p_status = ''in_progress'', p_created_by = 2, p_civil_engineer_id = Some 3\<rparr>],
      worker_requests =
        [\<lparr>wr_id = 1, wr_project_id = 2, wr_worker_id = 3, wr_requested_by = 2,
           wr_status = ''accepted'', wr_message = ''villa'', wr_created_at = 1,
           wr_responded_at = Some 4\<rparr>,
         \<lparr>wr_id = 2, wr_project_id = 1, wr_worker_id = 3, wr_requested_by = 2,
           wr_status = ''pending'', wr_message = ''garage'', wr_created_at = 2,
           wr_responded_at = None\<rparr>,
         \<lparr>wr_id = 3, wr_project_id = 1, wr_worker_id = 4, wr_requested_by = 2,
           wr_status = ''pending'', wr_message = ''garage'', wr_created_at = 3,
           wr_responded_at = None\<rparr>],
      project_workers =
        [\<lparr>pw_id = 1, pw_project_id = 2, pw_worker_id = 3, pw_assigned_by = 3,
           pw_role = Some ''civil_engineer'', pw_assigned_at = 4\<rparr>,
         \<lparr>pw_id = 2, pw_project_id = 2, pw_worker_id = 6, pw_assigned_by = 3,
           pw_role = Some ''plumber'', pw_assigned_at = 5\<rparr>],
      materials = seed_materials,
      project_materials = [],
      project_milestones = []\<rparr>"

text \<open>
  A smaller store, before any request: a client with one project in planning and two
  available civil engineers.
\<close>

definition plot :: db where
  "plot =
     \<lparr>users =
        [\<lparr>u_id = 2, u_user_type = ''user'', u_sub_user_type = None, u_is_available = True\<rparr>,
         \<lparr>u_id = 3, u_user_type = ''worker'', u_sub_user_type = Some ''civil_engineer'',
           u_is_available = True\<rparr>,
         \<lparr>u_id = 4, u_user_type = ''worker'', u_sub_user_type = Some ''civil_engineer'',
           u_is_available = True\<rparr>],
      projects =
        [\<lparr>p_id = 1, p_status = ''planning'', p_created_by = 2, p_civil_engineer_id = None\<rparr>],
      worker_requests = [],
      project_workers = [],
      materials = seed_materials,
      project_materials = [],
      project_milestones = []\<rparr>"

section \<open>Facts about tables\<close>

lemma foldr_max_ge: "i \<in> set ids \<Longrightarrow> i \<le> foldr max ids (0::nat)"
  by (induction ids) auto

lemma next_id_fresh: "i \<in> set ids \<Longrightarrow> i < next_id ids"
  unfolding next_id_def using foldr_max_ge [of i ids] by simp

lemma find_None_iff_ball: "find P xs = None \<longleftrightarrow> (\<forall>x \<in> set xs. \<not> P x)"
  by (induction xs) auto

lemma find_Some_mem: "find P xs = Some x \<Longrightarrow> x \<in> set xs \<and> P x"
  by (induction xs) (auto split: if_splits)

lemma find_map_keep:
  "(\<And>x. P (f x) = P x) \<Longrightarrow> find P (map f xs) = map_option f (find P xs)"
  by (induction xs) auto

lemma distinct_key_eq:
  "distinct (map f xs) \<Longrightarrow> x \<in> set xs \<Longrightarrow> y \<in> set xs \<Longrightarrow> f x = f y \<Longrightarrow> x = y"
  by (auto simp: distinct_map dest: inj_onD)


lemma keys_map_upd:
  "(\<And>x. key (f x) = key x) \<Longrightarrow> map key (map (\<lambda>x. if key x = k then f x else x) xs) = map key xs"
  by (induction xs) auto

section \<open>What each handler does to the store\<close>

text \<open>
  A call either leaves the store as it found it and answers with an error, or passes
  every check and commits; the committed store is written out table by table.
\<close>

lemma request_worker_shape:
  assumes "request_worker fault now d a pid wid message = (d', r)"
  shows "(d' = d \<and> (\<forall>c b. r \<noteq> Json c b)) \<or>
     (r = Json 201 (MessageId ''Worker request sent successfully''
                      (next_id (map wr_id (worker_requests d)))) \<and>
      d' = insert_worker_request pid wid (a_id a) message now d)"
  using assms
  by (auto simp: request_worker_def store_call_def split: if_splits option.splits)

lemma respond_shape:
  assumes "respond_to_request fault now d a rid status = (d', r)"
  shows "(d' = d \<and> (\<forall>c b. r \<noteq> Json c b)) \<or>
     (\<exists>request. a_user_type a = ''worker'' \<and>
        find (\<lambda>q. wr_id q = rid \<and> wr_worker_id q = a_id a) (worker_requests d) = Some request \<and>
        wr_status request = ''pending'' \<and>
        r = Json 200 (Message (''Request '' @ status @ '' successfully'')) \<and>
        d' = (if status = ''accepted''
              then d\<lparr>worker_requests :=
                       map (\<lambda>q. if wr_id q = rid
                                then q\<lparr>wr_status := status, wr_responded_at := Some now\<rparr> else q)
                           (worker_requests d),
                     projects :=
                       map (\<lambda>p. if p_id p = wr_project_id request
                                then p\<lparr>p_civil_engineer_id := Some (a_id a),
                                       p_status := ''in_progress''\<rparr> else p)
                           (projects d),
                     project_workers := project_workers d @
                       [\<lparr>pw_id = next_id (map pw_id (project_workers d)),
                         pw_project_id = wr_project_id request, pw_worker_id = a_id a,
                         pw_assigned_by = a_id a, pw_role = Some ''civil_engineer'',
                         pw_assigned_at = now\<rparr>],
                     users := map (\<lambda>u. if u_id u = a_id a then u\<lparr>u_is_available := False\<rparr> else u)
                                  (users d)\<rparr>
              else d\<lparr>worker_requests :=
                       map (\<lambda>q. if wr_id q = rid
                                then q\<lparr>wr_status := status, wr_responded_at := Some now\<rparr> else q)
                           (worker_requests d)\<rparr>))"
  using assms
  by (auto simp: respond_to_request_def store_call_def transaction_def update_request_status_def
      update_project_engineer_def insert_project_worker_def mark_unavailable_def
      split: if_splits option.splits sum.splits)

lemma assign_shape:
  assumes "assign_worker fault now d a pid wid role = (d', r)"
  shows "(d' = d \<and> (\<forall>c b. r \<noteq> Json c b)) \<or>
     (\<exists>project worker. a_user_type a = ''worker'' \<and> a_sub_user_type a = Some ''civil_engineer'' \<and>
        find (\<lambda>p. p_id p = pid \<and> p_civil_engineer_id p = Some (a_id a)) (projects d) = Some project \<and>
        find (\<lambda>u. u_id u = wid \<and> u_user_type u = ''worker'' \<and> u_is_available u) (users d)
          = Some worker \<and>
        r = Json 200 (Message ''Worker assigned successfully'') \<and>
        d' = d\<lparr>project_workers := project_workers d @
                 [\<lparr>pw_id = next_id (map pw_id (project_workers d)), pw_project_id = pid,
                   pw_worker_id = wid, pw_assigned_by = a_id a,
                   pw_role = (if role = None \<or> role = Some [] then u_sub_user_type worker else role),
                   pw_assigned_at = now\<rparr>],
               users := map (\<lambda>u. if u_id u = wid then u\<lparr>u_is_available := False\<rparr> else u)
                            (users d)\<rparr>)"
  using assms
  by (auto simp: assign_worker_def store_call_def transaction_def
      insert_project_worker_def mark_unavailable_def
      split: if_splits option.splits sum.splits)

lemma order_shape:
  assumes "order_material fault now d a pid mid quantity = (d', r)"
  shows "(d' = d \<and> (\<forall>c b. r \<noteq> Json c b)) \<or>
     (\<exists>project material.
        find (\<lambda>p. p_id p = pid \<and> p_civil_engineer_id p = Some (a_id a)) (projects d) = Some project \<and>
        find (\<lambda>m. m_id m = mid) (materials d) = Some material \<and>
        \<not> js_less_than (m_stock_quantity material) quantity \<and>
        r = Json 200 (MessageCost ''Material ordered successfully''
                        (Times (m_price_per_unit material) quantity)) \<and>
        d' = d\<lparr>project_materials := project_materials d @
                 [\<lparr>pm_id = next_id (map pm_id (project_materials d)), pm_project_id = pid,
                   pm_material_id = mid, pm_quantity = bind_value quantity,
                   pm_total_cost = Times (m_price_per_unit material) quantity,
                   pm_ordered_by = a_id a, pm_ordered_at = now\<rparr>],
               materials :=
                 map (\<lambda>m. if m_id m = mid
                          then m\<lparr>m_stock_quantity := sql_minus (m_stock_quantity m) quantity\<rparr>
                          else m)
                     (materials d)\<rparr>)"
  using assms
  by (auto simp: order_material_def store_call_def transaction_def Let_def
      insert_project_material_def decrement_stock_def
      split: if_splits option.splits sum.splits)


section \<open>Material orders and the stock\<close>












section \<open>Answering a request\<close>


lemma find_unique:
  assumes "distinct (map key xs)" "q \<in> set xs" "P q" "\<And>x. P x \<Longrightarrow> key x = key q"
  shows "find P xs = Some q"
proof (cases "find P xs")
  case None
  with assms(2,3) show ?thesis by (simp add: find_None_iff_ball)
next
  case (Some x)
  from find_Some_mem [OF Some] have "x \<in> set xs" "P x" by auto
  with assms(4) [of x] distinct_key_eq [OF assms(1) \<open>x \<in> set xs\<close> assms(2)] Some
  show ?thesis by simp
qed

lemma request_worker_keeps_resolved:
  assumes "distinct (map wr_id (worker_requests d))" "q \<in> set (worker_requests d)"
  shows "distinct (map wr_id (worker_requests (fst (request_worker fault now d a pid wid message)))) \<and>
         q \<in> set (worker_requests (fst (request_worker fault now d a pid wid message)))"
proof -
  obtain d' r where call: "request_worker fault now d a pid wid message = (d', r)"
    by (cases "request_worker fault now d a pid wid message") auto
  from request_worker_shape [OF call]
  consider "d' = d" | "d' = insert_worker_request pid wid (a_id a) message now d" by auto
  then show ?thesis
  proof cases
    case 1
    with assms call show ?thesis by simp
  next
    case 2
    have "next_id (map wr_id (worker_requests d)) \<notin> set (map wr_id (worker_requests d))"
      using next_id_fresh [of "next_id (map wr_id (worker_requests d))" "map wr_id (worker_requests d)"]
      by auto
    with assms call 2 show ?thesis by (simp add: insert_worker_request_def)
  qed
qed

lemma respond_keeps_resolved:
  assumes dist: "distinct (map wr_id (worker_requests d))"
    and mem: "q \<in> set (worker_requests d)" and res: "wr_status q \<noteq> ''pending''"
  shows "distinct (map wr_id (worker_requests (fst (respond_to_request fault now d a rid status)))) \<and>
         q \<in> set (worker_requests (fst (respond_to_request fault now d a rid status)))"
proof -
  obtain d' r where call: "respond_to_request fault now d a rid status = (d', r)"
    by (cases "respond_to_request fault now d a rid status") auto
  from respond_shape [OF call]
  consider "d' = d"
    | request where "find (\<lambda>q. wr_id q = rid \<and> wr_worker_id q = a_id a) (worker_requests d) = Some request"
        "wr_status request = ''pending''"
        "worker_requests d' = map (\<lambda>q. if wr_id q = rid
                                then q\<lparr>wr_status := status, wr_responded_at := Some now\<rparr> else q)
                           (worker_requests d)"
    by (auto split: if_splits)
  then show ?thesis
  proof cases
    case 1
    with assms call show ?thesis by simp
  next
    case 2
    from find_Some_mem [OF 2(1)] have rq: "request \<in> set (worker_requests d)" "wr_id request = rid"
      by auto
    have "wr_id q \<noteq> rid"
    proof
      assume "wr_id q = rid"
      with distinct_key_eq [OF dist mem rq(1)] rq(2) have "q = request" by simp
      with res 2(2) show False by simp
    qed
    then have "q \<in> set (worker_requests d')"
      unfolding 2(3) using mem by (auto simp: image_iff intro!: bexI [of _ q])
    moreover have "map wr_id (map (\<lambda>q. if wr_id q = rid
                                then q\<lparr>wr_status := status, wr_responded_at := Some now\<rparr> else q)
                           (worker_requests d)) = map wr_id (worker_requests d)"
      by (rule keys_map_upd) simp
    with dist have "distinct (map wr_id (worker_requests d'))"
      unfolding 2(3) by (simp only:)
    ultimately show ?thesis using call by simp
  qed
qed

lemma assign_requests:
  "worker_requests (fst (assign_worker fault now d a pid wid role)) = worker_requests d"
  using assign_shape [of fault now d a pid wid role]
  by (cases "assign_worker fault now d a pid wid role") auto

lemma order_requests:
  "worker_requests (fst (order_material fault now d a pid mid quantity)) = worker_requests d"
  using order_shape [of fault now d a pid mid quantity]
  by (cases "order_material fault now d a pid mid quantity") auto

lemma handle_keeps_resolved:
  assumes "distinct (map wr_id (worker_requests d))"
    and "q \<in> set (worker_requests d)" and "wr_status q \<noteq> ''pending''"
  shows "distinct (map wr_id (worker_requests (fst (handle d c)))) \<and>
         q \<in> set (worker_requests (fst (handle d c)))"
proof -
  obtain fault now rq where c: "c = (fault, now, rq)" by (cases c) auto
  show ?thesis
  proof (cases rq)
    case (RequestWorker a pid wid message)
    with request_worker_keeps_resolved [OF assms(1,2)] c show ?thesis by simp
  next
    case (Respond a rid status)
    with respond_keeps_resolved [OF assms] c show ?thesis by simp
  qed (use assms in \<open>simp_all add: c assign_requests order_requests\<close>)
qed

lemma run_keeps_resolved:
  "distinct (map wr_id (worker_requests d)) \<Longrightarrow> q \<in> set (worker_requests d) \<Longrightarrow>
   wr_status q \<noteq> ''pending'' \<Longrightarrow>
   distinct (map wr_id (worker_requests (run d cs))) \<and> q \<in> set (worker_requests (run d cs))"
proof (induction cs arbitrary: d)
  case Nil
  then show ?case by simp
next
  case (Cons c cs)
  from handle_keeps_resolved [OF Cons.prems, of c] Cons.IH [of "fst (handle d c)"] Cons.prems(3)
  show ?case by simp
qed

text \<open>
  Claim C4 says that the second answer to a request always fails. The handler does
  not look at the decision it is given, and the CHECK constraint of the table allows
  the value \<open>pending\<close>. On the site engineer 4 answers request 3 with the decision
  ``pending'': the reply is 200 and the request is pending as before. The second
  answer of engineer 4 to request 3, ``accepted'', is then not refused: the reply is
  200 again and the request is accepted.
\<close>

theorem respond_pending_twice_counterexample:
  "snd (respond_to_request None 10 site engineer4 3 ''pending'') =
     Json 200 (Message ''Request pending successfully'') \<and>
   map wr_status (worker_requests (fst (respond_to_request None 10 site engineer4 3 ''pending''))) =
     [''accepted'', ''pending'', ''pending''] \<and>
   snd (respond_to_request None 11 (fst (respond_to_request None 10 site engineer4 3 ''pending''))
          engineer4 3 ''accepted'') =
     Json 200 (Message ''Request accepted successfully'') \<and>
   map wr_status
     (worker_requests
        (fst (respond_to_request None 11
                (fst (respond_to_request None 10 site engineer4 3 ''pending''))
                engineer4 3 ''accepted''))) =
     [''accepted'', ''pending'', ''accepted'']"
  by (simp add: site_def engineer4_def respond_to_request_def store_call_def transaction_def
      update_request_status_def update_project_engineer_def insert_project_worker_def
      mark_unavailable_def request_statuses_def)

text \<open>
  Claim C4, amended. Let the target worker's answer to a request, accepted or rejected, go
  through, in a store whose requests have distinct ids (the primary key). Whatever
  workflow calls follow, by whomever, a further answer of that worker to the same
  request id is refused with 400 ``Request already responded to'' (the Conflict of
  the specification), whatever decision it carries; only if the store fails when the
  request is read is the reply 500 instead. Either way the store is left exactly as it
  was: no second project update, assignment row or availability change. The request
  is still there and its status is still the one the first answer gave it.
\<close>

theorem respond_twice_conflict:
  assumes dist: "distinct (map wr_id (worker_requests d))"
    and decision: "status = ''accepted'' \<or> status = ''rejected''"
    and first: "respond_to_request fault now d a rid status = (d1, Json c b)"
  shows "respond_to_request fault' now' (run d1 cs) a rid status' =
           (run d1 cs, if fault' = Some 0 then Internal StoreFault
                       else Error 400 ''Request already responded to'') \<and>
         (\<exists>q. find (\<lambda>q. wr_id q = rid) (worker_requests (run d1 cs)) = Some q \<and>
              wr_status q = status)"
proof -
  from respond_shape [OF first] obtain request where
    worker: "a_user_type a = ''worker''" and
    found: "find (\<lambda>q. wr_id q = rid \<and> wr_worker_id q = a_id a) (worker_requests d) = Some request" and
    table: "worker_requests d1 = map (\<lambda>q. if wr_id q = rid
                                then q\<lparr>wr_status := status, wr_responded_at := Some now\<rparr> else q)
                           (worker_requests d)"
    by (auto split: if_splits)
  define q where "q = request\<lparr>wr_status := status, wr_responded_at := Some now\<rparr>"
  from find_Some_mem [OF found]
  have rq: "request \<in> set (worker_requests d)" "wr_id request = rid" "wr_worker_id request = a_id a"
    by auto
  then have mem1: "q \<in> set (worker_requests d1)"
    unfolding table q_def by (auto simp: image_iff intro!: bexI [of _ request])
  have "map wr_id (map (\<lambda>q. if wr_id q = rid
                                then q\<lparr>wr_status := status, wr_responded_at := Some now\<rparr> else q)
                           (worker_requests d)) = map wr_id (worker_requests d)"
    by (rule keys_map_upd) simp
  with dist have dist1: "distinct (map wr_id (worker_requests d1))"
    unfolding table by (simp only:)
  from decision have resolved: "wr_status q \<noteq> ''pending''"
    by (auto simp: q_def)
  from run_keeps_resolved [OF dist1 mem1 resolved, of cs]
  have distn: "distinct (map wr_id (worker_requests (run d1 cs)))"
    and memn: "q \<in> set (worker_requests (run d1 cs))"
    by auto
  have q_fields: "wr_id q = rid" "wr_worker_id q = a_id a" "wr_status q = status"
    using rq by (simp_all add: q_def)
  have f1: "find (\<lambda>q. wr_id q = rid \<and> wr_worker_id q = a_id a) (worker_requests (run d1 cs)) = Some q"
    by (rule find_unique [OF distn memn]) (simp_all add: q_fields)
  have f2: "find (\<lambda>q. wr_id q = rid) (worker_requests (run d1 cs)) = Some q"
    by (rule find_unique [OF distn memn]) (simp_all add: q_fields)
  from f1 worker resolved
  have "respond_to_request fault' now' (run d1 cs) a rid status' =
           (run d1 cs, if fault' = Some 0 then Internal StoreFault
                       else Error 400 ''Request already responded to'')"
    by (simp add: respond_to_request_def store_call_def)
  with f2 q_fields(3) show ?thesis by simp
qed

text \<open>
  On the site: engineer 4 accepts request 3 and, now civil engineer of project 1,
  assigns the painter. Answering request 3 again, this time with ``rejected'', is
  refused and changes nothing; the request stays accepted.
\<close>

theorem respond_twice_conflict_witness:
  "distinct (map wr_id (worker_requests site)) \<and>
   respond_to_request None 10 site engineer4 3 ''accepted'' =
     (fst (respond_to_request None 10 site engineer4 3 ''accepted''),
      Json 200 (Message ''Request accepted successfully'')) \<and>
   respond_to_request None 12
       (run (fst (respond_to_request None 10 site engineer4 3 ''accepted''))
            [(None, 11, Assign engineer4 1 5 None)])
       engineer4 3 ''rejected'' =
     (run (fst (respond_to_request None 10 site engineer4 3 ''accepted''))
          [(None, 11, Assign engineer4 1 5 None)],
      Error 400 ''Request already responded to'') \<and>
   map wr_status (worker_requests
       (run (fst (respond_to_request None 10 site engineer4 3 ''accepted''))
            [(None, 11, Assign engineer4 1 5 None)])) = [''accepted'', ''pending'', ''accepted'']"
proof -
  have h1: "distinct (map wr_id (worker_requests site))"
    by (simp add: site_def)
  have "snd (respond_to_request None 10 site engineer4 3 ''accepted'') =
      Json 200 (Message ''Request accepted successfully'')"
    by (simp add: site_def engineer4_def respond_to_request_def store_call_def transaction_def
        update_request_status_def update_project_engineer_def insert_project_worker_def
        mark_unavailable_def request_statuses_def)
  then have h3: "respond_to_request None 10 site engineer4 3 ''accepted'' =
     (fst (respond_to_request None 10 site engineer4 3 ''accepted''),
      Json 200 (Message ''Request accepted successfully''))"
    by (simp add: prod_eq_iff)
  have statuses: "map wr_status (worker_requests
       (run (fst (respond_to_request None 10 site engineer4 3 ''accepted''))
            [(None, 11, Assign engineer4 1 5 None)])) = [''accepted'', ''pending'', ''accepted'']"
    by (simp add: site_def engineer4_def respond_to_request_def store_call_def transaction_def
        update_request_status_def update_project_engineer_def insert_project_worker_def
        mark_unavailable_def request_statuses_def assign_worker_def)
  from respond_twice_conflict [where cs = "[(None, 11, Assign engineer4 1 5 None)]" and fault' = None
      and now' = 12 and status' = "''rejected''", OF h1 _ h3]
  have "respond_to_request None 12
       (run (fst (respond_to_request None 10 site engineer4 3 ''accepted''))
            [(None, 11, Assign engineer4 1 5 None)])
       engineer4 3 ''rejected'' =
     (run (fst (respond_to_request None 10 site engineer4 3 ''accepted''))
          [(None, 11, Assign engineer4 1 5 None)],
      Error 400 ''Request already responded to'')"
    by simp
  with h1 h3 statuses show ?thesis by (simp only: simp_thms)
qed

text \<open>
  Claim C2. Let a worker answer a pending request addressed to that worker. With
  decision ``accepted'' the handler makes seven calls to the store: it reads the
  request, then runs six statements as one transaction (BEGIN, the request's status,
  the project, the assignment row, the availability flag, COMMIT). If the store fails
  at any of the seven, the reply is 500 and the store is exactly the one the call
  started in, the request still pending. Otherwise the reply is the success message
  and the committed store differs from the old one in exactly four tables: the
  request's row is accepted and carries the response time; the project's row has the
  worker as civil engineer and status \<open>in_progress\<close>; \<open>project_workers\<close> has one
  more row, for this project and worker, with role \<open>civil_engineer\<close>; the worker's
  row is unavailable. With decision ``rejected'' the transaction has three statements
  (calls 1 to 3) and the committed store differs only in the request's row (status and
  response time); no other row of any table changes.
\<close>

theorem respond_is_one_transaction:
  assumes "a_user_type a = ''worker''"
    and "find (\<lambda>q. wr_id q = rid \<and> wr_worker_id q = a_id a) (worker_requests d) = Some request"
    and "wr_status request = ''pending''"
  shows "respond_to_request fault now d a rid ''accepted'' =
     (if \<exists>k \<le> 6. fault = Some k then (d, Internal StoreFault)
      else (d\<lparr>worker_requests :=
                map (\<lambda>q. if wr_id q = rid
                         then q\<lparr>wr_status := ''accepted'', wr_responded_at := Some now\<rparr> else q)
                    (worker_requests d),
              projects :=
                map (\<lambda>p. if p_id p = wr_project_id request
                         then p\<lparr>p_civil_engineer_id := Some (a_id a),
                                p_status := ''in_progress''\<rparr> else p)
                    (projects d),
              project_workers := project_workers d @
                [\<lparr>pw_id = next_id (map pw_id (project_workers d)),
                  pw_project_id = wr_project_id request, pw_worker_id = a_id a,
                  pw_assigned_by = a_id a, pw_role = Some ''civil_engineer'',
                  pw_assigned_at = now\<rparr>],
              users := map (\<lambda>u. if u_id u = a_id a then u\<lparr>u_is_available := False\<rparr> else u)
                           (users d)\<rparr>,
            Json 200 (Message ''Request accepted successfully''))) \<and>
    respond_to_request fault now d a rid ''rejected'' =
     (if \<exists>k \<le> 3. fault = Some k then (d, Internal StoreFault)
      else (d\<lparr>worker_requests :=
                map (\<lambda>q. if wr_id q = rid
                         then q\<lparr>wr_status := ''rejected'', wr_responded_at := Some now\<rparr> else q)
                    (worker_requests d)\<rparr>,
            Json 200 (Message ''Request rejected successfully'')))"
proof -
  have ks: "(\<exists>k \<le> 6. fault = Some k) \<longleftrightarrow> fault \<in> {Some 0, Some 1, Some 2, Some 3, Some 4, Some 5, Some 6}"
           "(\<exists>k \<le> 3. fault = Some k) \<longleftrightarrow> fault \<in> {Some 0, Some 1, Some 2, Some 3}"
    by (auto simp: le_Suc_eq numeral_eq_Suc)
  show ?thesis
    unfolding ks using assms
    by (auto simp: respond_to_request_def store_call_def transaction_def update_request_status_def
        update_project_engineer_def insert_project_worker_def mark_unavailable_def
        request_statuses_def)
qed

text \<open>
  On the site: engineer 4 answers request 3. A store failure at call 4 (the insert of
  the assignment row, after the request and the project have been updated) leaves the
  site untouched. Without a failure, acceptance makes engineer 4 civil engineer of
  project 1, adds assignment row 3 and marks engineer 4 unavailable; rejection changes
  request 3 and nothing else.
\<close>

theorem respond_is_one_transaction_witness:
  "a_user_type engineer4 = ''worker'' \<and>
   find (\<lambda>q. wr_id q = 3 \<and> wr_worker_id q = a_id engineer4) (worker_requests site) =
     Some \<lparr>wr_id = 3, wr_project_id = 1, wr_worker_id = 4, wr_requested_by = 2,
           wr_status = ''pending'', wr_message = ''garage'', wr_created_at = 3,
           wr_responded_at = None\<rparr> \<and>
   respond_to_request (Some 4) 10 site engineer4 3 ''accepted'' = (site, Internal StoreFault) \<and>
   snd (respond_to_request None 10 site engineer4 3 ''accepted'') =
     Json 200 (Message ''Request accepted successfully'') \<and>
   projects (fst (respond_to_request None 10 site engineer4 3 ''accepted'')) =
     [\<lparr>p_id = 1, p_status = ''in_progress'', p_created_by = 2, p_civil_engineer_id = Some 4\<rparr>,
      \<lparr>p_id = 2, p_status = ''in_progress'', p_created_by = 2, p_civil_engineer_id = Some 3\<rparr>] \<and>
   project_workers (fst (respond_to_request None 10 site engineer4 3 ''accepted'')) =
     project_workers site @
     [\<lparr>pw_id = 3, pw_project_id = 1, pw_worker_id = 4, pw_assigned_by = 4,
       pw_role = Some ''civil_engineer'', pw_assigned_at = 10\<rparr>] \<and>
   map u_is_available (users (fst (respond_to_request None 10 site engineer4 3 ''accepted''))) =
     [True, True, False, False, True, False] \<and>
   map wr_status (worker_requests (fst (respond_to_request None 10 site engineer4 3 ''accepted''))) =
     [''accepted'', ''pending'', ''accepted''] \<and>
   respond_to_request None 10 site engineer4 3 ''rejected'' =
     (site\<lparr>worker_requests :=
        [worker_requests site ! 0, worker_requests site ! 1,
         \<lparr>wr_id = 3, wr_project_id = 1, wr_worker_id = 4, wr_requested_by = 2,
           wr_status = ''rejected'', wr_message = ''garage'', wr_created_at = 3,
           wr_responded_at = Some 10\<rparr>]\<rparr>,
      Json 200 (Message ''Request rejected successfully''))"
proof -
  have h1: "a_user_type engineer4 = ''worker''"
    by (simp add: engineer4_def)
  have h2: "find (\<lambda>q. wr_id q = 3 \<and> wr_worker_id q = a_id engineer4) (worker_requests site) =
     Some \<lparr>wr_id = 3, wr_project_id = 1, wr_worker_id = 4, wr_requested_by = 2,
           wr_status = ''pending'', wr_message = ''garage'', wr_created_at = 3,
           wr_responded_at = None\<rparr>"
    by (simp add: site_def engineer4_def)
  note faulty = respond_is_one_transaction [OF h1 h2, of "Some 4" 10, simplified]
  note sound = respond_is_one_transaction [OF h1 h2, of None 10, simplified]
  from faulty have rolled_back:
    "respond_to_request (Some 4) 10 site engineer4 3 ''accepted'' = (site, Internal StoreFault)"
    by simp
  from sound have accepted: "respond_to_request None 10 site engineer4 3 ''accepted'' =
      (site\<lparr>worker_requests :=
                map (\<lambda>q. if wr_id q = 3
                         then q\<lparr>wr_status := ''accepted'', wr_responded_at := Some 10\<rparr> else q)
                    (worker_requests site),
              projects :=
                map (\<lambda>p. if p_id p = 1
                         then p\<lparr>p_civil_engineer_id := Some (a_id engineer4),
                                p_status := ''in_progress''\<rparr> else p)
                    (projects site),
              project_workers := project_workers site @
                [\<lparr>pw_id = next_id (map pw_id (project_workers site)),
                  pw_project_id = 1, pw_worker_id = a_id engineer4,
                  pw_assigned_by = a_id engineer4, pw_role = Some ''civil_engineer'',
                  pw_assigned_at = 10\<rparr>],
              users := map (\<lambda>u. if u_id u = a_id engineer4 then u\<lparr>u_is_available := False\<rparr> else u)
                           (users site)\<rparr>,
            Json 200 (Message ''Request accepted successfully''))"
    by simp
  from sound have rejected: "respond_to_request None 10 site engineer4 3 ''rejected'' =
      (site\<lparr>worker_requests :=
                map (\<lambda>q. if wr_id q = 3
                         then q\<lparr>wr_status := ''rejected'', wr_responded_at := Some 10\<rparr> else q)
                    (worker_requests site)\<rparr>,
            Json 200 (Message ''Request rejected successfully''))"
    by simp
  show ?thesis
    unfolding rolled_back accepted rejected
    by (simp add: site_def engineer4_def next_id_def)
qed

text \<open>
  Claim C10. A worker who is already marked unavailable answers a pending request
  addressed to that worker with ``accepted'', and the store does not fail. The call
  succeeds and the request's project has that worker as civil engineer afterwards.
  More generally the handler never reads the \<open>users\<close> table: its reply and the
  projects it leaves are the same whatever that table holds.
\<close>

theorem accept_ignores_availability:
  assumes "a_user_type a = ''worker''"
    and "find (\<lambda>q. wr_id q = rid \<and> wr_worker_id q = a_id a) (worker_requests d) = Some request"
    and "wr_status request = ''pending''"
    and "find (\<lambda>u. u_id u = a_id a) (users d) = Some worker"
    and "\<not> u_is_available worker"
    and "find (\<lambda>p. p_id p = wr_project_id request) (projects d) = Some project"
  shows "snd (respond_to_request None now d a rid ''accepted'') =
           Json 200 (Message ''Request accepted successfully'') \<and>
         find (\<lambda>p. p_id p = wr_project_id request)
              (projects (fst (respond_to_request None now d a rid ''accepted''))) =
           Some (project\<lparr>p_civil_engineer_id := Some (a_id a), p_status := ''in_progress''\<rparr>) \<and>
         (\<forall>us fault status.
            snd (respond_to_request fault now (d\<lparr>users := us\<rparr>) a rid status) =
              snd (respond_to_request fault now d a rid status) \<and>
            projects (fst (respond_to_request fault now (d\<lparr>users := us\<rparr>) a rid status)) =
              projects (fst (respond_to_request fault now d a rid status)))"
proof -
  have reply: "snd (respond_to_request None now d a rid ''accepted'') =
           Json 200 (Message ''Request accepted successfully'')"
    using assms(1-3)
    by (simp add: respond_to_request_def store_call_def transaction_def update_request_status_def
        update_project_engineer_def insert_project_worker_def mark_unavailable_def
        request_statuses_def)
  have table: "projects (fst (respond_to_request None now d a rid ''accepted'')) =
      map (\<lambda>p. if p_id p = wr_project_id request
               then p\<lparr>p_civil_engineer_id := Some (a_id a), p_status := ''in_progress''\<rparr> else p)
          (projects d)"
    using assms(1-3)
    by (simp add: respond_to_request_def store_call_def transaction_def update_request_status_def
        update_project_engineer_def insert_project_worker_def mark_unavailable_def
        request_statuses_def)
  have "find (\<lambda>p. p_id p = wr_project_id request)
              (projects (fst (respond_to_request None now d a rid ''accepted''))) =
        map_option (\<lambda>p. if p_id p = wr_project_id request
               then p\<lparr>p_civil_engineer_id := Some (a_id a), p_status := ''in_progress''\<rparr> else p)
          (find (\<lambda>p. p_id p = wr_project_id request) (projects d))"
    unfolding table by (rule find_map_keep) simp
  with assms(6) find_Some_mem [OF assms(6)]
  have installed: "find (\<lambda>p. p_id p = wr_project_id request)
              (projects (fst (respond_to_request None now d a rid ''accepted''))) =
           Some (project\<lparr>p_civil_engineer_id := Some (a_id a), p_status := ''in_progress''\<rparr>)"
    by simp
  have blind: "snd (respond_to_request fault now (d\<lparr>users := us\<rparr>) a rid status) =
              snd (respond_to_request fault now d a rid status) \<and>
            projects (fst (respond_to_request fault now (d\<lparr>users := us\<rparr>) a rid status)) =
              projects (fst (respond_to_request fault now d a rid status))"
    for us fault status
    by (auto simp: respond_to_request_def store_call_def transaction_def update_request_status_def
        update_project_engineer_def insert_project_worker_def mark_unavailable_def
        split: option.splits)
  from reply installed blind show ?thesis by blast
qed

text \<open>
  On the site: engineer 3 is unavailable, being the civil engineer of project 2, and
  still has request 2 for project 1 pending. Engineer 3 accepts it and becomes civil
  engineer of project 1 as well.
\<close>

theorem accept_ignores_availability_witness:
  "a_user_type engineer3 = ''worker'' \<and>
   find (\<lambda>u. u_id u = a_id engineer3) (users site) =
     Some \<lparr>u_id = 3, u_user_type = ''worker'', u_sub_user_type = Some ''civil_engineer'',
           u_is_available = False\<rparr> \<and>
   map p_civil_engineer_id (projects site) = [None, Some 3] \<and>
   snd (respond_to_request None 10 site engineer3 2 ''accepted'') =
     Json 200 (Message ''Request accepted successfully'') \<and>
   find (\<lambda>p. p_id p = 1) (projects (fst (respond_to_request None 10 site engineer3 2 ''accepted''))) =
     Some \<lparr>p_id = 1, p_status = ''in_progress'', p_created_by = 2, p_civil_engineer_id = Some 3\<rparr>"
proof -
  have h1: "a_user_type engineer3 = ''worker''"
    by (simp add: engineer3_def)
  have h2: "find (\<lambda>q. wr_id q = 2 \<and> wr_worker_id q = a_id engineer3) (worker_requests site) =
     Some \<lparr>wr_id = 2, wr_project_id = 1, wr_worker_id = 3, wr_requested_by = 2,
           wr_status = ''pending'', wr_message = ''garage'', wr_created_at = 2,
           wr_responded_at = None\<rparr>"
    by (simp add: site_def engineer3_def)
  have h4: "find (\<lambda>u. u_id u = a_id engineer3) (users site) =
     Some \<lparr>u_id = 3, u_user_type = ''worker'', u_sub_user_type = Some ''civil_engineer'',
           u_is_available = False\<rparr>"
    by (simp add: site_def engineer3_def)
  have h6: "find (\<lambda>p. p_id p = wr_project_id \<lparr>wr_id = 2, wr_project_id = 1, wr_worker_id = 3,
           wr_requested_by = 2, wr_status = ''pending'', wr_message = ''garage'',
           wr_created_at = 2, wr_responded_at = None\<rparr>) (projects site) =
     Some \<lparr>p_id = 1, p_status = ''planning'', p_created_by = 2, p_civil_engineer_id = None\<rparr>"
    by (simp add: site_def)
  have engineers: "map p_civil_engineer_id (projects site) = [None, Some 3]"
    by (simp add: site_def)
  from accept_ignores_availability [OF h1 h2 _ h4 _ h6, of 10]
  have "snd (respond_to_request None 10 site engineer3 2 ''accepted'') =
     Json 200 (Message ''Request accepted successfully'') \<and>
   find (\<lambda>p. p_id p = 1) (projects (fst (respond_to_request None 10 site engineer3 2 ''accepted''))) =
     Some \<lparr>p_id = 1, p_status = ''in_progress'', p_created_by = 2, p_civil_engineer_id = Some 3\<rparr>"
    by (simp add: engineer3_def)
  with h1 h4 engineers show ?thesis by (simp only: simp_thms)
qed

section \<open>Creating a request\<close>


lemma find_append_None: "find P xs = None \<Longrightarrow> find P (xs @ ys) = find P ys"
  by (induction xs) (auto split: if_splits)

lemma map_upd_other_keys:
  "\<forall>x \<in> set xs. key x \<noteq> k \<Longrightarrow> map (\<lambda>x. if key x = k then f x else x) xs = xs"
  by (induction xs) auto

lemma request_worker_success_iff:
  "(\<exists>c b. snd (request_worker fault now d a pid wid message) = Json c b) \<longleftrightarrow>
     (\<exists>project. find (\<lambda>p. p_id p = pid) (projects d) = Some project \<and>
                p_created_by project = a_id a) \<and>
     (\<exists>u \<in> set (users d). u_id u = wid \<and> u_user_type u = ''worker'' \<and>
        u_sub_user_type u = Some ''civil_engineer'' \<and> u_is_available u) \<and>
     \<not> (\<exists>q \<in> set (worker_requests d).
          wr_project_id q = pid \<and> wr_worker_id q = wid \<and> wr_status q = ''pending'') \<and>
     \<not> (\<exists>k \<le> 3. fault = Some k)"
proof -
  have ks: "(\<exists>k \<le> 3. fault = Some k) \<longleftrightarrow> fault \<in> {Some 0, Some 1, Some 2, Some 3}"
    by (auto simp: le_Suc_eq numeral_eq_Suc)
  have users: "(\<exists>u \<in> set (users d). u_id u = wid \<and> u_user_type u = ''worker'' \<and>
        u_sub_user_type u = Some ''civil_engineer'' \<and> u_is_available u) \<longleftrightarrow>
      find (\<lambda>u. u_id u = wid \<and> u_user_type u = ''worker'' \<and>
                u_sub_user_type u = Some ''civil_engineer'' \<and> u_is_available u) (users d) \<noteq> None"
    unfolding find_None_iff_ball by blast
  have pending: "(\<exists>q \<in> set (worker_requests d).
          wr_project_id q = pid \<and> wr_worker_id q = wid \<and> wr_status q = ''pending'') \<longleftrightarrow>
      find (\<lambda>r. wr_project_id r = pid \<and> wr_worker_id r = wid \<and> wr_status r = ''pending'')
           (worker_requests d) \<noteq> None"
    unfolding find_None_iff_ball by blast
  show ?thesis
    unfolding users pending ks
    by (auto simp: request_worker_def store_call_def split: option.splits)
qed

lemma request_worker_conflict:
  assumes "find (\<lambda>p. p_id p = pid) (projects d) = Some project" "p_created_by project = a_id a"
    and "u \<in> set (users d)" "u_id u = wid" "u_user_type u = ''worker''"
        "u_sub_user_type u = Some ''civil_engineer''" "u_is_available u"
    and "q \<in> set (worker_requests d)" "wr_project_id q = pid" "wr_worker_id q = wid"
        "wr_status q = ''pending''"
  shows "request_worker None now d a pid wid message =
           (d, Error 400 ''Request already sent to this worker'')"
proof -
  from assms(3-7)
  have "find (\<lambda>u. u_id u = wid \<and> u_user_type u = ''worker'' \<and>
                u_sub_user_type u = Some ''civil_engineer'' \<and> u_is_available u) (users d) \<noteq> None"
    by (auto simp: find_None_iff_ball)
  moreover from assms(8-11)
  have "find (\<lambda>r. wr_project_id r = pid \<and> wr_worker_id r = wid \<and> wr_status r = ''pending'')
           (worker_requests d) \<noteq> None"
    by (auto simp: find_None_iff_ball)
  ultimately show ?thesis using assms(1,2)
    by (auto simp: request_worker_def store_call_def split: option.splits)
qed

lemma request_worker_success:
  assumes "find (\<lambda>p. p_id p = pid) (projects d) = Some project" "p_created_by project = a_id a"
    and "u \<in> set (users d)" "u_id u = wid" "u_user_type u = ''worker''"
        "u_sub_user_type u = Some ''civil_engineer''" "u_is_available u"
    and "\<forall>q \<in> set (worker_requests d).
           \<not> (wr_project_id q = pid \<and> wr_worker_id q = wid \<and> wr_status q = ''pending'')"
  shows "request_worker None now d a pid wid message =
    (d\<lparr>worker_requests := worker_requests d @
        [\<lparr>wr_id = next_id (map wr_id (worker_requests d)), wr_project_id = pid,
          wr_worker_id = wid, wr_requested_by = a_id a, wr_status = ''pending'',
          wr_message = message, wr_created_at = now, wr_responded_at = None\<rparr>]\<rparr>,
     Json 201 (MessageId ''Worker request sent successfully''
                 (next_id (map wr_id (worker_requests d)))))"
proof -
  from assms(3-7)
  have "find (\<lambda>u. u_id u = wid \<and> u_user_type u = ''worker'' \<and>
                u_sub_user_type u = Some ''civil_engineer'' \<and> u_is_available u) (users d) \<noteq> None"
    by (auto simp: find_None_iff_ball)
  moreover from assms(8)
  have "find (\<lambda>r. wr_project_id r = pid \<and> wr_worker_id r = wid \<and> wr_status r = ''pending'')
           (worker_requests d) = None"
    by (auto simp: find_None_iff_ball)
  ultimately show ?thesis using assms(1,2)
    by (auto simp: request_worker_def store_call_def insert_worker_request_def split: option.splits)
qed

lemma reject_new_request:
  assumes "a_user_type w = ''worker''" "a_id w = wid"
    and "rid = next_id (map wr_id rows)"
    and "new = \<lparr>wr_id = rid, wr_project_id = pid,
          wr_worker_id = wid, wr_requested_by = by_id, wr_status = ''pending'',
          wr_message = message, wr_created_at = now, wr_responded_at = None\<rparr>"
    and "worker_requests d1 = rows @ [new]"
  shows "respond_to_request None now2 d1 w rid ''rejected'' =
    (d1\<lparr>worker_requests := rows @ [new\<lparr>wr_status := ''rejected'', wr_responded_at := Some now2\<rparr>]\<rparr>,
     Json 200 (Message ''Request rejected successfully''))"
proof -
  have other: "\<forall>q \<in> set rows. wr_id q \<noteq> rid"
  proof
    fix q
    assume "q \<in> set rows"
    then have "wr_id q \<in> set (map wr_id rows)" by simp
    from next_id_fresh [OF this] assms(3) show "wr_id q \<noteq> rid" by simp
  qed
  then have "find (\<lambda>q. wr_id q = rid \<and> wr_worker_id q = a_id w) rows = None"
    by (simp add: find_None_iff_ball)
  then have found: "find (\<lambda>q. wr_id q = rid \<and> wr_worker_id q = a_id w) (worker_requests d1) = Some new"
    unfolding assms(5) by (simp add: find_append_None assms(2,4))
  have "map (\<lambda>q. if wr_id q = rid
             then q\<lparr>wr_status := ''rejected'', wr_responded_at := Some now2\<rparr> else q) rows = rows"
    using other by (rule map_upd_other_keys)
  then have "map (\<lambda>q. if wr_id q = rid
             then q\<lparr>wr_status := ''rejected'', wr_responded_at := Some now2\<rparr> else q)
           (worker_requests d1) =
         rows @ [new\<lparr>wr_status := ''rejected'', wr_responded_at := Some now2\<rparr>]"
    unfolding assms(5) by (simp add: assms(4))
  with found assms(1) show ?thesis
    by (simp add: respond_to_request_def store_call_def transaction_def update_request_status_def
        request_statuses_def assms(4))
qed


text \<open>
  Claim C5. Creating a worker request succeeds exactly when the caller created the
  project, the target is an available worker of sub-type \<open>civil_engineer\<close>, no
  pending request exists for that project and worker, and the store does not fail at
  any of the handler's four calls. With a store that does not fail and the first two
  conditions given, the pending request alone decides: if there is one, the reply is
  400 ``Request already sent to this worker'' (the Conflict of the specification) and
  the store is unchanged; if there is none, one row with status \<open>pending\<close> is
  appended to \<open>worker_requests\<close>. After a successful creation, creating again for
  the same pair is refused; once the worker has rejected the new request, creating
  again for the same pair succeeds.
\<close>

theorem request_worker_pending_guard:
  "((\<exists>c b. snd (request_worker fault now d a pid wid message) = Json c b) \<longleftrightarrow>
      (\<exists>project. find (\<lambda>p. p_id p = pid) (projects d) = Some project \<and>
                 p_created_by project = a_id a) \<and>
      (\<exists>u \<in> set (users d). u_id u = wid \<and> u_user_type u = ''worker'' \<and>
         u_sub_user_type u = Some ''civil_engineer'' \<and> u_is_available u) \<and>
      \<not> (\<exists>q \<in> set (worker_requests d).
           wr_project_id q = pid \<and> wr_worker_id q = wid \<and> wr_status q = ''pending'') \<and>
      \<not> (\<exists>k \<le> 3. fault = Some k)) \<and>
   ((\<exists>project. find (\<lambda>p. p_id p = pid) (projects d) = Some project \<and>
                 p_created_by project = a_id a) \<and>
    (\<exists>u \<in> set (users d). u_id u = wid \<and> u_user_type u = ''worker'' \<and>
         u_sub_user_type u = Some ''civil_engineer'' \<and> u_is_available u) \<longrightarrow>
      request_worker None now d a pid wid message =
        (if \<exists>q \<in> set (worker_requests d).
              wr_project_id q = pid \<and> wr_worker_id q = wid \<and> wr_status q = ''pending''
         then (d, Error 400 ''Request already sent to this worker'')
         else (d\<lparr>worker_requests := worker_requests d @
                  [\<lparr>wr_id = next_id (map wr_id (worker_requests d)), wr_project_id = pid,
                    wr_worker_id = wid, wr_requested_by = a_id a, wr_status = ''pending'',
                    wr_message = message, wr_created_at = now, wr_responded_at = None\<rparr>]\<rparr>,
               Json 201 (MessageId ''Worker request sent successfully''
                           (next_id (map wr_id (worker_requests d))))))) \<and>
   ((\<exists>c b. snd (request_worker None now d a pid wid message) = Json c b) \<and>
    a_user_type w = ''worker'' \<and> a_id w = wid \<longrightarrow>
      snd (request_worker None now1 (fst (request_worker None now d a pid wid message))
             a pid wid message1) =
        Error 400 ''Request already sent to this worker'' \<and>
      snd (respond_to_request None now2 (fst (request_worker None now d a pid wid message)) w
             (next_id (map wr_id (worker_requests d))) ''rejected'') =
        Json 200 (Message ''Request rejected successfully'') \<and>
      (\<exists>i. snd (request_worker None now3
                  (fst (respond_to_request None now2
                          (fst (request_worker None now d a pid wid message)) w
                          (next_id (map wr_id (worker_requests d))) ''rejected''))
                  a pid wid message3) =
            Json 201 (MessageId ''Worker request sent successfully'' i)))"
proof -
  let ?owner = "\<exists>project. find (\<lambda>p. p_id p = pid) (projects d) = Some project \<and>
                 p_created_by project = a_id a"
  let ?engineer = "\<exists>u \<in> set (users d). u_id u = wid \<and> u_user_type u = ''worker'' \<and>
         u_sub_user_type u = Some ''civil_engineer'' \<and> u_is_available u"
  let ?pending = "\<exists>q \<in> set (worker_requests d).
           wr_project_id q = pid \<and> wr_worker_id q = wid \<and> wr_status q = ''pending''"
  let ?rid = "next_id (map wr_id (worker_requests d))"
  let ?new = "\<lparr>wr_id = ?rid, wr_project_id = pid,
                    wr_worker_id = wid, wr_requested_by = a_id a, wr_status = ''pending'',
                    wr_message = message, wr_created_at = now, wr_responded_at = None\<rparr>"
  let ?d1 = "d\<lparr>worker_requests := worker_requests d @ [?new]\<rparr>"
  have first: "(\<exists>c b. snd (request_worker fault now d a pid wid message) = Json c b) \<longleftrightarrow>
      ?owner \<and> ?engineer \<and> \<not> ?pending \<and> \<not> (\<exists>k \<le> 3. fault = Some k)"
    by (rule request_worker_success_iff)
  have second: "request_worker None now d a pid wid message =
        (if ?pending then (d, Error 400 ''Request already sent to this worker'')
         else (?d1, Json 201 (MessageId ''Worker request sent successfully'' ?rid)))"
    if "?owner" "?engineer"
  proof (cases ?pending)
    case True
    with that request_worker_conflict [of pid d _ a _ wid _ now message] show ?thesis
      by auto
  next
    case False
    with that request_worker_success [of pid d _ a _ wid now message] show ?thesis
      by auto
  qed
  have third: "snd (request_worker None now1 (fst (request_worker None now d a pid wid message))
                     a pid wid message1) =
        Error 400 ''Request already sent to this worker'' \<and>
      snd (respond_to_request None now2 (fst (request_worker None now d a pid wid message)) w ?rid
             ''rejected'') =
        Json 200 (Message ''Request rejected successfully'') \<and>
      (\<exists>i. snd (request_worker None now3
                  (fst (respond_to_request None now2
                          (fst (request_worker None now d a pid wid message)) w
                          ?rid ''rejected''))
                  a pid wid message3) =
            Json 201 (MessageId ''Worker request sent successfully'' i))"
    if ok: "\<exists>c b. snd (request_worker None now d a pid wid message) = Json c b"
      and w: "a_user_type w = ''worker''" "a_id w = wid"
  proof -
    from ok request_worker_success_iff [of None now d a pid wid message]
    have pre: ?owner ?engineer "\<not> ?pending" by auto
    from pre(1) obtain project where
      project: "find (\<lambda>p. p_id p = pid) (projects d) = Some project" "p_created_by project = a_id a"
      by blast
    from pre(2) obtain u where
      u: "u \<in> set (users d)" "u_id u = wid" "u_user_type u = ''worker''"
         "u_sub_user_type u = Some ''civil_engineer''" "u_is_available u"
      by blast
    from second [OF pre(1,2)] pre(3)
    have d1: "fst (request_worker None now d a pid wid message) = ?d1" by simp
    have again: "request_worker None now1 ?d1 a pid wid message1 =
        (?d1, Error 400 ''Request already sent to this worker'')"
      by (rule request_worker_conflict [where project = project and u = u and q = ?new])
         (use project u in simp_all)
    have rejected: "respond_to_request None now2 ?d1 w ?rid ''rejected'' =
        (?d1\<lparr>worker_requests := worker_requests d @
                [?new\<lparr>wr_status := ''rejected'', wr_responded_at := Some now2\<rparr>]\<rparr>,
         Json 200 (Message ''Request rejected successfully''))"
      by (rule reject_new_request [OF w refl refl]) simp
    let ?d2 = "?d1\<lparr>worker_requests := worker_requests d @
                [?new\<lparr>wr_status := ''rejected'', wr_responded_at := Some now2\<rparr>]\<rparr>"
    have "\<exists>c b. snd (request_worker None now3 ?d2 a pid wid message3) = Json c b"
      unfolding request_worker_success_iff using project u pre(3) by auto
    with request_worker_shape [of None now3 ?d2 a pid wid message3
        "fst (request_worker None now3 ?d2 a pid wid message3)"
        "snd (request_worker None now3 ?d2 a pid wid message3)"]
    have "\<exists>i. snd (request_worker None now3 ?d2 a pid wid message3) =
            Json 201 (MessageId ''Worker request sent successfully'' i)"
      by auto
    with again rejected show ?thesis unfolding d1 by simp
  qed
  from first second third show ?thesis by blast
qed


text \<open>
  On the site: the client asks engineer 4 for project 2 (request 4), asks again and is
  refused, engineer 4 rejects, and the client's next request goes through (request 5).
  For project 1 the pending request 3 blocks a new one; the admin does not own
  project 2; the painter is not a civil engineer.
\<close>

theorem request_worker_pending_guard_witness:
  "snd (request_worker None 20 site client2 2 4 ''annex'') =
     Json 201 (MessageId ''Worker request sent successfully'' 4) \<and>
   snd (request_worker None 21 (fst (request_worker None 20 site client2 2 4 ''annex''))
          client2 2 4 ''annex again'') = Error 400 ''Request already sent to this worker'' \<and>
   snd (respond_to_request None 22 (fst (request_worker None 20 site client2 2 4 ''annex''))
          engineer4 4 ''rejected'') = Json 200 (Message ''Request rejected successfully'') \<and>
   snd (request_worker None 23
          (fst (respond_to_request None 22 (fst (request_worker None 20 site client2 2 4 ''annex''))
                  engineer4 4 ''rejected''))
          client2 2 4 ''please'') =
     Json 201 (MessageId ''Worker request sent successfully'' 5) \<and>
   request_worker None 20 site client2 1 4 ''garage'' =
     (site, Error 400 ''Request already sent to this worker'') \<and>
   request_worker None 20 site admin1 2 4 ''annex'' = (site, Error 403 ''Not authorized'') \<and>
   request_worker None 20 site client2 2 5 ''annex'' = (site, Error 400 ''Worker not available'')"
proof -
  note inst = request_worker_pending_guard [where fault = None and now = 20 and d = site and a = client2
      and pid = 2 and wid = 4 and message = "''annex''" and w = engineer4 and ?now1.0 = 21
      and ?message1.0 = "''annex again''" and ?now2.0 = 22 and ?now3.0 = 23
      and ?message3.0 = "''please''"]
  have ok: "snd (request_worker None 20 site client2 2 4 ''annex'') =
     Json 201 (MessageId ''Worker request sent successfully'' 4)"
    by (simp add: site_def client2_def request_worker_def store_call_def
        insert_worker_request_def next_id_def)
  have rid: "next_id (map wr_id (worker_requests site)) = 4"
    by (simp add: site_def next_id_def)
  have w: "a_user_type engineer4 = ''worker''" "a_id engineer4 = 4"
    by (simp_all add: engineer4_def)
  from ok have ex: "\<exists>c b. snd (request_worker None 20 site client2 2 4 ''annex'') = Json c b"
    by simp
  from inst ex w have scenario:
    "snd (request_worker None 21 (fst (request_worker None 20 site client2 2 4 ''annex''))
          client2 2 4 ''annex again'') = Error 400 ''Request already sent to this worker'' \<and>
     snd (respond_to_request None 22 (fst (request_worker None 20 site client2 2 4 ''annex''))
          engineer4 4 ''rejected'') = Json 200 (Message ''Request rejected successfully'')"
    unfolding rid by blast
  have again: "snd (request_worker None 23
          (fst (respond_to_request None 22 (fst (request_worker None 20 site client2 2 4 ''annex''))
                  engineer4 4 ''rejected''))
          client2 2 4 ''please'') =
     Json 201 (MessageId ''Worker request sent successfully'' 5)"
    by (simp add: site_def client2_def engineer4_def request_worker_def store_call_def insert_worker_request_def
        next_id_def respond_to_request_def transaction_def update_request_status_def
        request_statuses_def)
  have others: "request_worker None 20 site client2 1 4 ''garage'' =
     (site, Error 400 ''Request already sent to this worker'')"
   "request_worker None 20 site admin1 2 4 ''annex'' = (site, Error 403 ''Not authorized'')"
   "request_worker None 20 site client2 2 5 ''annex'' = (site, Error 400 ''Worker not available'')"
    by (simp_all add: site_def client2_def admin1_def request_worker_def store_call_def)
  from ok scenario again others show ?thesis by (simp only: simp_thms)
qed

section \<open>Reading a project\<close>

lemma project_access_forbidden_iff:
  assumes "find (\<lambda>p. p_id p = pid) (projects d) = Some project"
  shows "project_access None d a pid = Inl (Error 403 ''Not authorized'') \<longleftrightarrow>
     a_user_type a = ''user'' \<and> p_created_by project \<noteq> a_id a \<or>
     a_user_type a = ''worker'' \<and> p_civil_engineer_id project \<noteq> Some (a_id a) \<and>
       (\<forall>w \<in> set (project_workers d). \<not> (pw_project_id w = pid \<and> pw_worker_id w = a_id a))"
  using assms by (auto simp: project_access_def find_None_iff_ball)

lemma project_access_cases:
  assumes "find (\<lambda>p. p_id p = pid) (projects d) = Some project"
  shows "project_access None d a pid = Inl (Error 403 ''Not authorized'') \<or>
         (\<exists>k. project_access None d a pid = Inr k)"
  using assms by (auto simp: project_access_def)

text \<open>
  Claim C6 says that every actor who is not the project's owner, not its civil engineer
  and not in its assignment list is refused, an admin included. On the site the admin
  is none of the three for project 2, and all three read handlers answer with the rows.
\<close>

theorem admin_reads_project_counterexample:
  "a_id admin1 = 1 \<and> a_user_type admin1 = ''admin'' \<and>
   map p_id (projects site) = [1, 2] \<and>
   map p_created_by (projects site) = [2, 2] \<and>
   map p_civil_engineer_id (projects site) = [None, Some 3] \<and>
   map pw_worker_id (project_workers site) = [3, 6] \<and>
   get_project_workers None site admin1 2 = Json 200 (WorkerRows (project_workers site)) \<and>
   get_project_materials None site admin1 2 = Json 200 (MaterialRows []) \<and>
   get_project_milestones None site admin1 2 = Json 200 (MilestoneRows [])"
  by (simp add: site_def admin1_def get_project_workers_def get_project_materials_def
      get_project_milestones_def project_access_def)

text \<open>
  Claim C6, amended. For an existing project, and a store that does not fail, the
  three read handlers refuse the same callers, with 403 ``Not authorized'': a caller
  of type \<open>user\<close> who did not create the project, and a caller of type \<open>worker\<close>
  who is neither its civil engineer nor in \<open>project_workers\<close> for it. So every user
  or worker who is not the owner, not the civil engineer and not assigned is refused.
  A caller of type \<open>admin\<close> is never refused: each handler answers with its rows.
\<close>

theorem project_read_forbidden:
  assumes "find (\<lambda>p. p_id p = pid) (projects d) = Some project"
  shows
   "((get_project_materials None d a pid = Error 403 ''Not authorized'' \<longleftrightarrow>
       a_user_type a = ''user'' \<and> p_created_by project \<noteq> a_id a \<or>
       a_user_type a = ''worker'' \<and> p_civil_engineer_id project \<noteq> Some (a_id a) \<and>
         (\<forall>w \<in> set (project_workers d). \<not> (pw_project_id w = pid \<and> pw_worker_id w = a_id a))) \<and>
     (get_project_milestones None d a pid = Error 403 ''Not authorized'' \<longleftrightarrow>
        get_project_materials None d a pid = Error 403 ''Not authorized'') \<and>
     (get_project_workers None d a pid = Error 403 ''Not authorized'' \<longleftrightarrow>
        get_project_materials None d a pid = Error 403 ''Not authorized'')) \<and>
    ((a_user_type a = ''user'' \<or> a_user_type a = ''worker'') \<and>
     p_created_by project \<noteq> a_id a \<and> p_civil_engineer_id project \<noteq> Some (a_id a) \<and>
     (\<forall>w \<in> set (project_workers d). \<not> (pw_project_id w = pid \<and> pw_worker_id w = a_id a)) \<longrightarrow>
       get_project_materials None d a pid = Error 403 ''Not authorized'' \<and>
       get_project_milestones None d a pid = Error 403 ''Not authorized'' \<and>
       get_project_workers None d a pid = Error 403 ''Not authorized'') \<and>
    (a_user_type a = ''admin'' \<longrightarrow>
       (\<exists>rows. get_project_materials None d a pid = Json 200 (MaterialRows rows)) \<and>
       (\<exists>rows. get_project_milestones None d a pid = Json 200 (MilestoneRows rows)) \<and>
       (\<exists>rows. get_project_workers None d a pid = Json 200 (WorkerRows rows)))"
proof -
  note iff = project_access_forbidden_iff [OF assms, of a]
  from project_access_cases [OF assms, of a]
  have mat: "get_project_materials None d a pid = Error 403 ''Not authorized'' \<longleftrightarrow>
      project_access None d a pid = Inl (Error 403 ''Not authorized'')"
    and mil: "get_project_milestones None d a pid = Error 403 ''Not authorized'' \<longleftrightarrow>
      project_access None d a pid = Inl (Error 403 ''Not authorized'')"
    and wrk: "get_project_workers None d a pid = Error 403 ''Not authorized'' \<longleftrightarrow>
      project_access None d a pid = Inl (Error 403 ''Not authorized'')"
    by (auto simp: get_project_materials_def get_project_milestones_def get_project_workers_def)
  have admin: "project_access None d a pid = Inr 1" if "a_user_type a = ''admin''"
    using that assms by (simp add: project_access_def)
  have "(\<exists>rows. get_project_materials None d a pid = Json 200 (MaterialRows rows)) \<and>
       (\<exists>rows. get_project_milestones None d a pid = Json 200 (MilestoneRows rows)) \<and>
       (\<exists>rows. get_project_workers None d a pid = Json 200 (WorkerRows rows))"
    if "a_user_type a = ''admin''"
    using admin [OF that]
    by (simp add: get_project_materials_def get_project_milestones_def get_project_workers_def)
  with iff mat mil wrk show ?thesis by blast
qed

text \<open>
  On the site: the painter has nothing to do with project 2 and is refused by all
  three handlers; its civil engineer and its owner get the worker rows.
\<close>

theorem project_read_forbidden_witness:
  "find (\<lambda>p. p_id p = 2) (projects site) =
     Some \<lparr>p_id = 2, p_status = ''in_progress'', p_created_by = 2, p_civil_engineer_id = Some 3\<rparr> \<and>
   get_project_materials None site painter5 2 = Error 403 ''Not authorized'' \<and>
   get_project_milestones None site painter5 2 = Error 403 ''Not authorized'' \<and>
   get_project_workers None site painter5 2 = Error 403 ''Not authorized'' \<and>
   get_project_workers None site engineer3 2 = Json 200 (WorkerRows (project_workers site)) \<and>
   get_project_workers None site client2 2 = Json 200 (WorkerRows (project_workers site))"
proof -
  have h: "find (\<lambda>p. p_id p = 2) (projects site) =
     Some \<lparr>p_id = 2, p_status = ''in_progress'', p_created_by = 2, p_civil_engineer_id = Some 3\<rparr>"
    by (simp add: site_def)
  have stranger: "(a_user_type painter5 = ''user'' \<or> a_user_type painter5 = ''worker'') \<and>
     p_created_by \<lparr>p_id = 2, p_status = ''in_progress'', p_created_by = 2,
                   p_civil_engineer_id = Some 3\<rparr> \<noteq> a_id painter5 \<and>
     p_civil_engineer_id \<lparr>p_id = 2, p_status = ''in_progress'', p_created_by = 2,
                   p_civil_engineer_id = Some 3\<rparr> \<noteq> Some (a_id painter5) \<and>
     (\<forall>w \<in> set (project_workers site). \<not> (pw_project_id w = 2 \<and> pw_worker_id w = a_id painter5))"
    by (simp add: site_def painter5_def)
  from project_read_forbidden [OF h, of painter5] stranger
  have "get_project_materials None site painter5 2 = Error 403 ''Not authorized'' \<and>
       get_project_milestones None site painter5 2 = Error 403 ''Not authorized'' \<and>
       get_project_workers None site painter5 2 = Error 403 ''Not authorized''"
    by blast
  moreover have "get_project_workers None site engineer3 2 = Json 200 (WorkerRows (project_workers site))"
    "get_project_workers None site client2 2 = Json 200 (WorkerRows (project_workers site))"
    by (simp_all add: site_def engineer3_def client2_def get_project_workers_def project_access_def)
  ultimately show ?thesis using h by (simp only: simp_thms)
qed

section \<open>Direct assignment\<close>

text \<open>
  Claim C7 says that assigning an unavailable worker fails with Conflict whatever the
  caller's role. On the site the plumber (user 6) is unavailable; when the admin, or
  engineer 4 who is not on project 2, tries to assign the plumber, the reply is 403,
  not the 400 ``Worker not available''.
\<close>

theorem assign_unavailable_counterexample:
  "u_id (users site ! 5) = 6 \<and> u_user_type (users site ! 5) = ''worker'' \<and>
   u_is_available (users site ! 5) = False \<and>
   assign_worker None 30 site admin1 2 6 None =
     (site, Error 403 ''Only civil engineers can assign workers'') \<and>
   assign_worker None 30 site engineer4 2 6 None =
     (site, Error 403 ''Not authorized for this project'')"
  by (simp add: site_def admin1_def engineer4_def assign_worker_def store_call_def)

text \<open>
  Claim C7, amended. With a store that does not fail: a caller who is not a
  civil-engineer worker, or not the civil engineer of the named project, is refused
  with 403; for the project's civil engineer the target decides, and if no row of
  \<open>users\<close> with the given id is an available worker the reply is 400 ``Worker not
  available'' (the Conflict of the specification). Hence assigning an unavailable
  worker always fails, with 403 or with 400 according to the caller. Whatever the
  store does, a call that does not answer with success leaves the store unchanged; a
  call that does has appended the assignment row (with the caller's role, or the
  worker's sub-type when the caller gave none) and marked the worker unavailable, both
  in one transaction.
\<close>

theorem assign_worker_guards:
  "(\<not> (a_user_type a = ''worker'' \<and> a_sub_user_type a = Some ''civil_engineer'' \<and>
        (\<exists>p \<in> set (projects d). p_id p = pid \<and> p_civil_engineer_id p = Some (a_id a))) \<longrightarrow>
      (\<exists>msg. assign_worker None now d a pid wid role = (d, Error 403 msg))) \<and>
   (a_user_type a = ''worker'' \<and> a_sub_user_type a = Some ''civil_engineer'' \<and>
    (\<exists>p \<in> set (projects d). p_id p = pid \<and> p_civil_engineer_id p = Some (a_id a)) \<and>
    \<not> (\<exists>u \<in> set (users d). u_id u = wid \<and> u_user_type u = ''worker'' \<and> u_is_available u) \<longrightarrow>
      assign_worker None now d a pid wid role = (d, Error 400 ''Worker not available'')) \<and>
   (a_user_type a = ''worker'' \<and> a_sub_user_type a = Some ''civil_engineer'' \<and>
    (\<exists>p \<in> set (projects d). p_id p = pid \<and> p_civil_engineer_id p = Some (a_id a)) \<and>
    find (\<lambda>u. u_id u = wid \<and> u_user_type u = ''worker'' \<and> u_is_available u) (users d) =
      Some worker \<longrightarrow>
      assign_worker fault now d a pid wid role =
        (if \<exists>k \<le> 5. fault = Some k then (d, Internal StoreFault)
         else (d\<lparr>project_workers := project_workers d @
                  [\<lparr>pw_id = next_id (map pw_id (project_workers d)), pw_project_id = pid,
                    pw_worker_id = wid, pw_assigned_by = a_id a,
                    pw_role = (if role = None \<or> role = Some [] then u_sub_user_type worker
                               else role),
                    pw_assigned_at = now\<rparr>],
                 users := map (\<lambda>u. if u_id u = wid then u\<lparr>u_is_available := False\<rparr> else u)
                              (users d)\<rparr>,
               Json 200 (Message ''Worker assigned successfully'')))) \<and>
   (\<not> (\<exists>u \<in> set (users d). u_id u = wid \<and> u_user_type u = ''worker'' \<and> u_is_available u) \<longrightarrow>
      fst (assign_worker fault now d a pid wid role) = d \<and>
      (\<forall>c b. snd (assign_worker fault now d a pid wid role) \<noteq> Json c b))"
proof -
  let ?engineer = "a_user_type a = ''worker'' \<and> a_sub_user_type a = Some ''civil_engineer'' \<and>
        (\<exists>p \<in> set (projects d). p_id p = pid \<and> p_civil_engineer_id p = Some (a_id a))"
  let ?available = "\<exists>u \<in> set (users d). u_id u = wid \<and> u_user_type u = ''worker'' \<and> u_is_available u"
  have proj: "(\<exists>p \<in> set (projects d). p_id p = pid \<and> p_civil_engineer_id p = Some (a_id a)) \<longleftrightarrow>
      find (\<lambda>p. p_id p = pid \<and> p_civil_engineer_id p = Some (a_id a)) (projects d) \<noteq> None"
    unfolding find_None_iff_ball by blast
  have usr: "?available \<longleftrightarrow>
      find (\<lambda>u. u_id u = wid \<and> u_user_type u = ''worker'' \<and> u_is_available u) (users d) \<noteq> None"
    unfolding find_None_iff_ball by blast
  have ks: "(\<exists>k \<le> 5. fault = Some k) \<longleftrightarrow>
      fault \<in> {Some 0, Some 1, Some 2, Some 3, Some 4, Some 5}"
    by (auto simp: le_Suc_eq numeral_eq_Suc)
  have forbidden: "\<exists>msg. assign_worker None now d a pid wid role = (d, Error 403 msg)"
    if "\<not> ?engineer"
    using that unfolding proj by (auto simp: assign_worker_def store_call_def)
  have conflict: "assign_worker None now d a pid wid role = (d, Error 400 ''Worker not available'')"
    if ?engineer "\<not> ?available"
    using that unfolding proj usr by (auto simp: assign_worker_def store_call_def)
  have committed: "assign_worker fault now d a pid wid role =
        (if \<exists>k \<le> 5. fault = Some k then (d, Internal StoreFault)
         else (d\<lparr>project_workers := project_workers d @
                  [\<lparr>pw_id = next_id (map pw_id (project_workers d)), pw_project_id = pid,
                    pw_worker_id = wid, pw_assigned_by = a_id a,
                    pw_role = (if role = None \<or> role = Some [] then u_sub_user_type worker
                               else role),
                    pw_assigned_at = now\<rparr>],
                 users := map (\<lambda>u. if u_id u = wid then u\<lparr>u_is_available := False\<rparr> else u)
                              (users d)\<rparr>,
               Json 200 (Message ''Worker assigned successfully'')))"
    if ?engineer
      "find (\<lambda>u. u_id u = wid \<and> u_user_type u = ''worker'' \<and> u_is_available u) (users d) =
         Some worker"
    using that unfolding proj ks
    by (auto simp: assign_worker_def store_call_def transaction_def insert_project_worker_def
        mark_unavailable_def)
  have unavailable: "fst (assign_worker fault now d a pid wid role) = d \<and>
      (\<forall>c b. snd (assign_worker fault now d a pid wid role) \<noteq> Json c b)"
    if "\<not> ?available"
  proof -
    obtain d' r where call: "assign_worker fault now d a pid wid role = (d', r)"
      by (cases "assign_worker fault now d a pid wid role") auto
    from assign_shape [OF call] that [unfolded usr] call show ?thesis by auto
  qed
  from forbidden conflict committed unavailable show ?thesis by blast
qed

text \<open>
  On the site: engineer 3, civil engineer of project 2, cannot assign the unavailable
  plumber (400); the painter cannot assign anyone (403); engineer 3 assigns the
  painter, with role \<open>painter\<close> by default, and a store failure at the insert
  (call 3) leaves the site untouched.
\<close>

theorem assign_worker_guards_witness:
  "assign_worker None 30 site engineer3 2 6 None = (site, Error 400 ''Worker not available'') \<and>
   assign_worker None 30 site painter5 2 6 None =
     (site, Error 403 ''Only civil engineers can assign workers'') \<and>
   assign_worker (Some 3) 30 site engineer3 2 5 None = (site, Internal StoreFault) \<and>
   assign_worker None 30 site engineer3 2 5 None =
     (site\<lparr>project_workers := project_workers site @
              [\<lparr>pw_id = 3, pw_project_id = 2, pw_worker_id = 5, pw_assigned_by = 3,
                pw_role = Some ''painter'', pw_assigned_at = 30\<rparr>],
            users := (users site)[4 := \<lparr>u_id = 5, u_user_type = ''worker'',
                u_sub_user_type = Some ''painter'', u_is_available = False\<rparr>]\<rparr>,
      Json 200 (Message ''Worker assigned successfully''))"
proof -
  have eng: "a_user_type engineer3 = ''worker'' \<and> a_sub_user_type engineer3 = Some ''civil_engineer'' \<and>
    (\<exists>p \<in> set (projects site). p_id p = 2 \<and> p_civil_engineer_id p = Some (a_id engineer3))"
    by (simp add: site_def engineer3_def)
  have plumber: "\<not> (\<exists>u \<in> set (users site). u_id u = 6 \<and> u_user_type u = ''worker'' \<and> u_is_available u)"
    by (simp add: site_def)
  have painter: "find (\<lambda>u. u_id u = 5 \<and> u_user_type u = ''worker'' \<and> u_is_available u) (users site) =
      Some \<lparr>u_id = 5, u_user_type = ''worker'', u_sub_user_type = Some ''painter'',
            u_is_available = True\<rparr>"
    by (simp add: site_def)
  have not_eng: "\<not> (a_user_type painter5 = ''worker'' \<and>
      a_sub_user_type painter5 = Some ''civil_engineer'' \<and>
      (\<exists>p \<in> set (projects site). p_id p = 2 \<and> p_civil_engineer_id p = Some (a_id painter5)))"
    by (simp add: painter5_def)
  from assign_worker_guards [where a = engineer3 and d = site and pid = 2 and now = 30
      and wid = 6 and role = None] eng plumber
  have c1: "assign_worker None 30 site engineer3 2 6 None = (site, Error 400 ''Worker not available'')"
    by blast
  from assign_worker_guards [where a = painter5 and d = site and pid = 2 and now = 30
      and wid = 6 and role = None] not_eng
  have "\<exists>msg. assign_worker None 30 site painter5 2 6 None = (site, Error 403 msg)"
    by blast
  then have c2: "assign_worker None 30 site painter5 2 6 None =
     (site, Error 403 ''Only civil engineers can assign workers'')"
    by (auto simp: assign_worker_def store_call_def painter5_def)
  from assign_worker_guards [where a = engineer3 and d = site and pid = 2 and now = 30
      and wid = 5 and role = None and fault = "Some 3"] eng painter
  have c3: "assign_worker (Some 3) 30 site engineer3 2 5 None = (site, Internal StoreFault)"
    by simp
  from assign_worker_guards [where a = engineer3 and d = site and pid = 2 and now = 30
      and wid = 5 and role = None and fault = None] eng painter
  have "assign_worker None 30 site engineer3 2 5 None =
     (site\<lparr>project_workers := project_workers site @
              [\<lparr>pw_id = next_id (map pw_id (project_workers site)), pw_project_id = 2,
                pw_worker_id = 5, pw_assigned_by = a_id engineer3,
                pw_role = Some ''painter'', pw_assigned_at = 30\<rparr>],
            users := map (\<lambda>u. if u_id u = 5 then u\<lparr>u_is_available := False\<rparr> else u) (users site)\<rparr>,
      Json 200 (Message ''Worker assigned successfully''))"
    by simp
  then have c4: "assign_worker None 30 site engineer3 2 5 None =
     (site\<lparr>project_workers := project_workers site @
              [\<lparr>pw_id = 3, pw_project_id = 2, pw_worker_id = 5, pw_assigned_by = 3,
                pw_role = Some ''painter'', pw_assigned_at = 30\<rparr>],
            users := (users site)[4 := \<lparr>u_id = 5, u_user_type = ''worker'',
                u_sub_user_type = Some ''painter'', u_is_available = False\<rparr>]\<rparr>,
      Json 200 (Message ''Worker assigned successfully''))"
    by (simp add: site_def engineer3_def next_id_def)
  from c1 c2 c3 c4 show ?thesis by (simp only: simp_thms)
qed

section \<open>The civil engineer of a project\<close>

lemma list_all2_map_upd:
  "list_all2 P xs (map f xs) \<longleftrightarrow> (\<forall>x \<in> set xs. P x (f x))"
  by (simp add: list_all2_map2 list_all2_same)

lemma request_worker_projects:
  "projects (fst (request_worker fault now d a pid wid message)) = projects d"
  using request_worker_shape [of fault now d a pid wid message]
  by (cases "request_worker fault now d a pid wid message") (auto simp: insert_worker_request_def)

lemma assign_projects:
  "projects (fst (assign_worker fault now d a pid wid role)) = projects d"
  using assign_shape [of fault now d a pid wid role]
  by (cases "assign_worker fault now d a pid wid role") auto

lemma order_projects:
  "projects (fst (order_material fault now d a pid mid quantity)) = projects d"
  using order_shape [of fault now d a pid mid quantity]
  by (cases "order_material fault now d a pid mid quantity") auto

lemma handle_projects:
  assumes "handle d (fault, now, rq) = (d', r)"
  shows "list_all2 (\<lambda>p p'. p_id p' = p_id p \<and>
            (p_civil_engineer_id p' = p_civil_engineer_id p \<or>
             (\<exists>a rid request. rq = Respond a rid ''accepted'' \<and>
                r = Json 200 (Message ''Request accepted successfully'') \<and>
                find (\<lambda>q. wr_id q = rid \<and> wr_worker_id q = a_id a) (worker_requests d) =
                  Some request \<and>
                wr_status request = ''pending'' \<and> p_id p = wr_project_id request \<and>
                p_civil_engineer_id p' = Some (a_id a))))
          (projects d) (projects d')"
proof (cases rq)
  case (RequestWorker a pid wid message)
  with assms request_worker_projects [of fault now d a pid wid message] show ?thesis
    by (auto simp: list_all2_same)
next
  case (Assign a pid wid role)
  with assms assign_projects [of fault now d a pid wid role] show ?thesis
    by (auto simp: list_all2_same)
next
  case (Order a pid mid quantity)
  with assms order_projects [of fault now d a pid mid quantity] show ?thesis
    by (auto simp: list_all2_same)
next
  case (Respond a rid status)
  with assms have call: "respond_to_request fault now d a rid status = (d', r)" by simp
  from respond_shape [OF call]
  consider "projects d' = projects d"
    | request where "status = ''accepted''"
        "find (\<lambda>q. wr_id q = rid \<and> wr_worker_id q = a_id a) (worker_requests d) = Some request"
        "wr_status request = ''pending''"
        "r = Json 200 (Message ''Request accepted successfully'')"
        "projects d' = map (\<lambda>p. if p_id p = wr_project_id request
                                then p\<lparr>p_civil_engineer_id := Some (a_id a),
                                       p_status := ''in_progress''\<rparr> else p) (projects d)"
    by (auto split: if_splits)
  then show ?thesis
  proof cases
    case 1
    then show ?thesis by (simp add: list_all2_same)
  next
    case 2
    show ?thesis
      unfolding 2(5) list_all2_map_upd using Respond 2(1-4) by auto
  qed
qed

lemma run_keeps_engineer:
  "list_all2 (\<lambda>p p'. p_id p' = p_id p \<and>
       (p_civil_engineer_id p \<noteq> None \<longrightarrow> p_civil_engineer_id p' \<noteq> None))
     (projects d) (projects (run d cs))"
proof (induction cs arbitrary: d)
  case Nil
  show ?case by (simp add: list_all2_same)
next
  case (Cons c cs)
  obtain fault now rq where c: "c = (fault, now, rq)" by (cases c) auto
  obtain d' r where step: "handle d (fault, now, rq) = (d', r)"
    by (cases "handle d (fault, now, rq)") auto
  have "list_all2 (\<lambda>p p'. p_id p' = p_id p \<and>
       (p_civil_engineer_id p \<noteq> None \<longrightarrow> p_civil_engineer_id p' \<noteq> None)) (projects d) (projects d')"
    by (rule list_all2_mono [OF handle_projects [OF step]]) auto
  from list_all2_trans [of _ _ "\<lambda>p p'. p_id p' = p_id p \<and>
       (p_civil_engineer_id p \<noteq> None \<longrightarrow> p_civil_engineer_id p' \<noteq> None)", OF _ this Cons.IH [of d']]
  show ?case by (simp add: c step)
qed

lemma list_all2_same_column:
  "list_all2 (\<lambda>x y. f y = f x \<and> g y = g x) xs ys \<Longrightarrow> map g ys = map g xs"
  by (induction rule: list_all2_induct) auto

text \<open>
  Claim C8 says that a project's civil engineer, once set, is never changed to another
  worker. From a plot with one project and two available engineers: the client asks
  both, engineer 3 accepts and becomes the civil engineer, then engineer 4 accepts the
  other request, which is still pending, and replaces engineer 3.
\<close>

theorem civil_engineer_replaced_counterexample:
  "map p_civil_engineer_id (projects plot) = [None] \<and>
   map p_civil_engineer_id
     (projects (run plot [(None, 1, RequestWorker client2 1 3 ''house''),
                          (None, 2, RequestWorker client2 1 4 ''house''),
                          (None, 3, Respond engineer3 1 ''accepted'')])) = [Some 3] \<and>
   handle (run plot [(None, 1, RequestWorker client2 1 3 ''house''),
                     (None, 2, RequestWorker client2 1 4 ''house''),
                     (None, 3, Respond engineer3 1 ''accepted'')])
          (None, 4, Respond engineer4 2 ''accepted'') =
     (run plot [(None, 1, RequestWorker client2 1 3 ''house''),
                (None, 2, RequestWorker client2 1 4 ''house''),
                (None, 3, Respond engineer3 1 ''accepted''),
                (None, 4, Respond engineer4 2 ''accepted'')],
      Json 200 (Message ''Request accepted successfully'')) \<and>
   map p_civil_engineer_id
     (projects (run plot [(None, 1, RequestWorker client2 1 3 ''house''),
                          (None, 2, RequestWorker client2 1 4 ''house''),
                          (None, 3, Respond engineer3 1 ''accepted''),
                          (None, 4, Respond engineer4 2 ''accepted'')])) = [Some 4]"
  by (simp add: plot_def client2_def engineer3_def engineer4_def request_worker_def store_call_def
      insert_worker_request_def next_id_def respond_to_request_def transaction_def
      update_request_status_def update_project_engineer_def insert_project_worker_def
      mark_unavailable_def request_statuses_def)

text \<open>
  Claim C8, amended. A workflow call keeps the projects and their ids, and changes the
  civil engineer of a project only if it is a successful ``accepted'' answer to a
  pending request for that project; the new civil engineer is then the answering
  worker, whether or not the project had one before. No run of workflow calls sets a
  civil engineer back to null.
\<close>

theorem civil_engineer_written_by_acceptance:
  "(handle d (fault, now, rq) = (d', r) \<longrightarrow>
     list_all2 (\<lambda>p p'. p_id p' = p_id p \<and>
            (p_civil_engineer_id p' = p_civil_engineer_id p \<or>
             (\<exists>a rid request. rq = Respond a rid ''accepted'' \<and>
                r = Json 200 (Message ''Request accepted successfully'') \<and>
                find (\<lambda>q. wr_id q = rid \<and> wr_worker_id q = a_id a) (worker_requests d) =
                  Some request \<and>
                wr_status request = ''pending'' \<and> p_id p = wr_project_id request \<and>
                p_civil_engineer_id p' = Some (a_id a))))
          (projects d) (projects d')) \<and>
   list_all2 (\<lambda>p p'. p_id p' = p_id p \<and>
       (p_civil_engineer_id p \<noteq> None \<longrightarrow> p_civil_engineer_id p' \<noteq> None))
     (projects d) (projects (run d cs))"
  using handle_projects [of d fault now rq d' r] run_keeps_engineer [of d cs] by blast

text \<open>
  On the site: assigning the painter changes no civil engineer; engineer 4 accepting
  request 3 becomes civil engineer of project 1; rejecting it changes none.
\<close>

theorem civil_engineer_written_by_acceptance_witness:
  "handle site (None, 30, Assign engineer3 2 5 None) =
     (fst (handle site (None, 30, Assign engineer3 2 5 None)),
      Json 200 (Message ''Worker assigned successfully'')) \<and>
   map p_civil_engineer_id (projects site) = [None, Some 3] \<and>
   map p_civil_engineer_id (projects (fst (handle site (None, 30, Assign engineer3 2 5 None)))) =
     [None, Some 3] \<and>
   map p_civil_engineer_id
     (projects (fst (handle site (None, 10, Respond engineer4 3 ''accepted'')))) =
     [Some 4, Some 3] \<and>
   map p_civil_engineer_id
     (projects (fst (handle site (None, 10, Respond engineer4 3 ''rejected'')))) =
     [None, Some 3]"
proof -
  have "snd (handle site (None, 30, Assign engineer3 2 5 None)) =
      Json 200 (Message ''Worker assigned successfully'')"
    by (simp add: site_def engineer3_def assign_worker_def store_call_def transaction_def
        insert_project_worker_def mark_unavailable_def)
  then have step: "handle site (None, 30, Assign engineer3 2 5 None) =
     (fst (handle site (None, 30, Assign engineer3 2 5 None)),
      Json 200 (Message ''Worker assigned successfully''))"
    by (simp add: prod_eq_iff)
  have before: "map p_civil_engineer_id (projects site) = [None, Some 3]"
    by (simp add: site_def)
  from civil_engineer_written_by_acceptance [of site None 30 "Assign engineer3 2 5 None"
      "fst (handle site (None, 30, Assign engineer3 2 5 None))"
      "Json 200 (Message ''Worker assigned successfully'')" "[]"] step
  have "list_all2 (\<lambda>p p'. p_id p' = p_id p \<and> p_civil_engineer_id p' = p_civil_engineer_id p)
      (projects site) (projects (fst (handle site (None, 30, Assign engineer3 2 5 None))))"
    by simp
  from list_all2_same_column [OF this] before
  have same: "map p_civil_engineer_id
      (projects (fst (handle site (None, 30, Assign engineer3 2 5 None)))) = [None, Some 3]"
    by simp
  have answers: "map p_civil_engineer_id
     (projects (fst (handle site (None, 10, Respond engineer4 3 ''accepted'')))) =
     [Some 4, Some 3]"
    "map p_civil_engineer_id
     (projects (fst (handle site (None, 10, Respond engineer4 3 ''rejected'')))) =
     [None, Some 3]"
    by (simp_all add: site_def engineer4_def respond_to_request_def store_call_def transaction_def
        update_request_status_def update_project_engineer_def insert_project_worker_def
        mark_unavailable_def request_statuses_def)
  from step before same answers show ?thesis by (simp only: simp_thms)
qed

section \<open>The rows of an order\<close>

lemma handle_project_materials:
  "project_materials (fst (handle d c)) = project_materials d \<or>
   (\<exists>fault now a pid mid q row. c = (fault, now, Order a pid mid q) \<and>
      pm_quantity row = bind_value q \<and>
      project_materials (fst (handle d c)) = project_materials d @ [row])"
proof -
  obtain fault now rq where c: "c = (fault, now, rq)" by (cases c) auto
  show ?thesis
  proof (cases rq)
    case (RequestWorker a pid wid message)
    with c request_worker_shape [of fault now d a pid wid message] show ?thesis
      by (cases "request_worker fault now d a pid wid message") (auto simp: insert_worker_request_def)
  next
    case (Respond a rid status)
    with c respond_shape [of fault now d a rid status] show ?thesis
      by (cases "respond_to_request fault now d a rid status") (auto split: if_splits)
  next
    case (Assign a pid wid role)
    with c assign_shape [of fault now d a pid wid role] show ?thesis
      by (cases "assign_worker fault now d a pid wid role") auto
  next
    case (Order a pid mid quantity)
    with c order_shape [of fault now d a pid mid quantity] show ?thesis
      by (cases "order_material fault now d a pid mid quantity") auto
  qed
qed

lemma run_positive_quantities:
  "\<forall>pm \<in> set (project_materials d). positive (pm_quantity pm) \<Longrightarrow>
   \<forall>fault now a pid mid q. (fault, now, Order a pid mid q) \<in> set cs \<longrightarrow> positive (bind_value q) \<Longrightarrow>
   \<forall>pm \<in> set (project_materials (run d cs)). positive (pm_quantity pm)"
proof (induction cs arbitrary: d)
  case Nil
  then show ?case by simp
next
  case (Cons c cs)
  from handle_project_materials [of d c] Cons.prems
  have "\<forall>pm \<in> set (project_materials (fst (handle d c))). positive (pm_quantity pm)"
    by auto
  moreover from Cons.prems(2)
  have "\<forall>fault now a pid mid q. (fault, now, Order a pid mid q) \<in> set cs \<longrightarrow>
          positive (bind_value q)"
    by auto
  ultimately show ?case using Cons.IH [of "fst (handle d c)"] by simp
qed

text \<open>
  Claim C9 says that the order operation rejects a quantity that is not positive. On
  the site engineer 3 orders \<open>-5\<close> units of gravel for project 2: the order is
  accepted, the row is stored with quantity \<open>-5\<close> and the stock rises from 30 to 35.
  An order of 0 units is stored as well.
\<close>

theorem order_quantity_counterexample:
  "snd (order_material None 40 site engineer3 2 5 (JInt (- 5))) =
     Json 200 (MessageCost ''Material ordered successfully'' (Times 1500 (JInt (- 5)))) \<and>
   project_materials (fst (order_material None 40 site engineer3 2 5 (JInt (- 5)))) =
     [\<lparr>pm_id = 1, pm_project_id = 2, pm_material_id = 5, pm_quantity = SInt (- 5),
       pm_total_cost = Times 1500 (JInt (- 5)), pm_ordered_by = 3, pm_ordered_at = 40\<rparr>] \<and>
   map m_stock_quantity (materials (fst (order_material None 40 site engineer3 2 5 (JInt (- 5))))) =
     [Some 100, Some 500, Some 1000, Some 50, Some 35] \<and>
   map pm_quantity (project_materials (fst (order_material None 41 site engineer3 2 5 (JInt 0)))) =
     [SInt 0]"
  by (simp add: site_def seed_materials_def engineer3_def order_material_def Let_def store_call_def transaction_def
      insert_project_material_def decrement_stock_def next_id_def)

text \<open>
  Claim C9, amended. An order either fails and leaves \<open>project_materials\<close> as it
  was, or appends exactly one row. That row holds the quantity of the request as the
  store takes it: the integer for a 32-bit integer, the text itself for a text that
  starts with digits, NULL for \<open>null\<close> and for a request without a quantity. The row is
  written when the handler's only test, \<open>stock_quantity < quantity\<close>, is false; for an
  integer quantity this means that the quantity is at most the stock of the material
  at the time of the order, a stock of NULL counting as 0. The handler looks neither
  at the sign of the quantity nor at its type; the rows of \<open>project_materials\<close> all
  hold an integer above zero after a run of workflow calls if they did before and
  every order of the run asks for an integer above zero.
\<close>

theorem order_row_quantity:
  "(order_material fault now d a pid mid quantity = (d', r) \<longrightarrow>
      (project_materials d' = project_materials d \<and> (\<forall>c b. r \<noteq> Json c b)) \<or>
      (\<exists>material. find (\<lambda>m. m_id m = mid) (materials d) = Some material \<and>
         \<not> js_less_than (m_stock_quantity material) quantity \<and>
         (\<forall>n. quantity = JInt n \<longrightarrow> sint n \<le> js_number (m_stock_quantity material)) \<and>
         r = Json 200 (MessageCost ''Material ordered successfully''
                         (Times (m_price_per_unit material) quantity)) \<and>
         project_materials d' = project_materials d @
           [\<lparr>pm_id = next_id (map pm_id (project_materials d)), pm_project_id = pid,
             pm_material_id = mid, pm_quantity = bind_value quantity,
             pm_total_cost = Times (m_price_per_unit material) quantity,
             pm_ordered_by = a_id a, pm_ordered_at = now\<rparr>])) \<and>
   ((\<forall>pm \<in> set (project_materials d). positive (pm_quantity pm)) \<and>
    (\<forall>fault now a pid mid q. (fault, now, Order a pid mid q) \<in> set cs \<longrightarrow>
        positive (bind_value q)) \<longrightarrow>
      (\<forall>pm \<in> set (project_materials (run d cs)). positive (pm_quantity pm)))"
proof -
  have "(project_materials d' = project_materials d \<and> (\<forall>c b. r \<noteq> Json c b)) \<or>
      (\<exists>material. find (\<lambda>m. m_id m = mid) (materials d) = Some material \<and>
         \<not> js_less_than (m_stock_quantity material) quantity \<and>
         (\<forall>n. quantity = JInt n \<longrightarrow> sint n \<le> js_number (m_stock_quantity material)) \<and>
         r = Json 200 (MessageCost ''Material ordered successfully''
                         (Times (m_price_per_unit material) quantity)) \<and>
         project_materials d' = project_materials d @
           [\<lparr>pm_id = next_id (map pm_id (project_materials d)), pm_project_id = pid,
             pm_material_id = mid, pm_quantity = bind_value quantity,
             pm_total_cost = Times (m_price_per_unit material) quantity,
             pm_ordered_by = a_id a, pm_ordered_at = now\<rparr>])"
    if "order_material fault now d a pid mid quantity = (d', r)"
    using order_shape [OF that] by auto
  with run_positive_quantities [of d cs] show ?thesis by blast
qed

text \<open>
  On the site: 20 units of gravel are ordered and recorded as such; after a second
  order, of 8 bags of cement, all recorded quantities are positive; 31 units of gravel
  are more than the stock.
\<close>

theorem order_row_quantity_witness:
  "snd (order_material None 6 site engineer3 2 5 (JInt 20)) =
     Json 200 (MessageCost ''Material ordered successfully'' (Times 1500 (JInt 20))) \<and>
   project_materials (fst (order_material None 6 site engineer3 2 5 (JInt 20))) =
     [\<lparr>pm_id = 1, pm_project_id = 2, pm_material_id = 5, pm_quantity = SInt 20,
       pm_total_cost = Times 1500 (JInt 20), pm_ordered_by = 3, pm_ordered_at = 6\<rparr>] \<and>
   list_all (\<lambda>pm. positive (pm_quantity pm))
     (project_materials (run site [(None, 6, Order engineer3 2 5 (JInt 20)),
                                   (None, 7, Order engineer3 2 1 (JInt 8))])) \<and>
   map pm_quantity
     (project_materials (run site [(None, 6, Order engineer3 2 5 (JInt 20)),
                                   (None, 7, Order engineer3 2 1 (JInt 8))])) =
     [SInt 20, SInt 8] \<and>
   snd (order_material None 6 site engineer3 2 5 (JInt 31)) = Error 400 ''Insufficient stock''"
proof -
  have reply: "snd (order_material None 6 site engineer3 2 5 (JInt 20)) =
     Json 200 (MessageCost ''Material ordered successfully'' (Times 1500 (JInt 20)))"
    by (simp add: site_def seed_materials_def engineer3_def order_material_def Let_def store_call_def transaction_def
      insert_project_material_def decrement_stock_def)
  then have call: "order_material None 6 site engineer3 2 5 (JInt 20) =
      (fst (order_material None 6 site engineer3 2 5 (JInt 20)),
       Json 200 (MessageCost ''Material ordered successfully'' (Times 1500 (JInt 20))))"
    by (simp add: prod_eq_iff)
  note inst = order_row_quantity [of None 6 site engineer3 2 5 "JInt 20"
      "fst (order_material None 6 site engineer3 2 5 (JInt 20))"
      "Json 200 (MessageCost ''Material ordered successfully'' (Times 1500 (JInt 20)))"
      "[(None, 6, Order engineer3 2 5 (JInt 20)), (None, 7, Order engineer3 2 1 (JInt 8))]"]
  from inst call obtain material where
    "find (\<lambda>m. m_id m = 5) (materials site) = Some material"
    "project_materials (fst (order_material None 6 site engineer3 2 5 (JInt 20))) =
       project_materials site @
           [\<lparr>pm_id = next_id (map pm_id (project_materials site)), pm_project_id = 2,
             pm_material_id = 5, pm_quantity = bind_value (JInt 20),
             pm_total_cost = Times (m_price_per_unit material) (JInt 20),
             pm_ordered_by = a_id engineer3, pm_ordered_at = 6\<rparr>]"
    by blast
  then have row: "project_materials (fst (order_material None 6 site engineer3 2 5 (JInt 20))) =
     [\<lparr>pm_id = 1, pm_project_id = 2, pm_material_id = 5, pm_quantity = SInt 20,
       pm_total_cost = Times 1500 (JInt 20), pm_ordered_by = 3, pm_ordered_at = 6\<rparr>]"
    by (auto simp: site_def seed_materials_def engineer3_def next_id_def)
  have "\<forall>pm \<in> set (project_materials site). positive (pm_quantity pm)"
    by (simp add: site_def)
  moreover have "\<forall>fault now a pid mid q. (fault, now, Order a pid mid q) \<in>
      set [(None, 6, Order engineer3 2 5 (JInt 20)), (None, 7, Order engineer3 2 1 (JInt 8))] \<longrightarrow>
        positive (bind_value q)"
    by auto
  ultimately have positive: "\<forall>pm \<in> set (project_materials
      (run site [(None, 6, Order engineer3 2 5 (JInt 20)), (None, 7, Order engineer3 2 1 (JInt 8))])).
      positive (pm_quantity pm)"
    using inst by blast
  have rows: "map pm_quantity
     (project_materials (run site [(None, 6, Order engineer3 2 5 (JInt 20)),
                                   (None, 7, Order engineer3 2 1 (JInt 8))])) =
     [SInt 20, SInt 8]"
    by (simp add: site_def seed_materials_def engineer3_def order_material_def Let_def store_call_def transaction_def
      insert_project_material_def decrement_stock_def)
  have short: "snd (order_material None 6 site engineer3 2 5 (JInt 31)) =
      Error 400 ''Insufficient stock''"
    by (simp add: site_def seed_materials_def engineer3_def order_material_def Let_def store_call_def)
  from reply row positive rows short show ?thesis
    by (simp only: list_all_iff simp_thms)
qed

end
